theory Spec2Isabelle
  imports Complex_Main "HOL-Library.Multiset" "HOL-Library.Sublist"
begin

section \<open>Values of the Python program\<close>

text \<open>
  In the scorer a Python \<open>float\<close> is modelled as an exact \<open>real\<close>: sums, quotients
  and comparisons are the mathematical ones, without the rounding of IEEE doubles. In
  \<open>compute_price_drop_30d\<close>, which converts stored texts and rounds a quotient to four
  places, a \<open>float\<close> is an IEEE double (\<open>pyfloat\<close> below). A Python \<open>int\<close> is
  an \<open>int\<close>, an absent dictionary key or \<open>None\<close> is \<open>None\<close>, a \<open>str\<close> is
  the list of its UTF-8 bytes.

  A \<open>datetime\<close> is the number of microseconds since the epoch. \<open>_iso\<close> (db.py) drops
  the microseconds and prints the rest in a fixed-width format, whose text order is the
  order of time; \<open>_parse_iso\<close> reads that text back. Stored times are therefore modelled
  by the truncated number itself, and \<open>_parse_iso\<close> is the identity on them.
\<close>

type_synonym datetime = int

definition second_us :: int where
  "second_us = 1000000"

definition day_us :: int where
  "day_us = 86400 * second_us"

definition iso :: "datetime \<Rightarrow> datetime" where
  "iso ts = ts - ts mod second_us"

text \<open>\<open>(a - b).days\<close>: a \<open>timedelta\<close> is normalised so that \<open>days\<close> is the floor.\<close>

definition days_between :: "datetime \<Rightarrow> datetime \<Rightarrow> int" where
  "days_between a b = (a - b) div day_us"

text \<open>\<open>x or y\<close> on optional integers: \<open>None\<close> and \<open>0\<close> are falsy.\<close>

definition truthy :: "int option \<Rightarrow> bool" where
  "truthy v = (case v of None \<Rightarrow> False | Some n \<Rightarrow> n \<noteq> 0)"

definition py_or :: "int option \<Rightarrow> int option \<Rightarrow> int option" where
  "py_or x y = (if truthy x then x else y)"

definition or_zero :: "int option \<Rightarrow> int" where
  "or_zero v = (case v of None \<Rightarrow> 0 | Some n \<Rightarrow> n)"

text \<open>
  \<open>round(x, n)\<close> and the format \<open>:.0f\<close> round to the nearest value, a tie going to the
  even neighbour.
\<close>

definition round_half_even :: "real \<Rightarrow> int" where
  "round_half_even x =
     (let f = \<lfloor>x\<rfloor>; d = x - of_int f
      in if d < 1 / 2 then f
         else if 1 / 2 < d then f + 1
         else if even f then f else f + 1)"

definition py_round :: "real \<Rightarrow> nat \<Rightarrow> real" where
  "py_round x n = of_int (round_half_even (x * 10 ^ n)) / 10 ^ n"

text \<open>
  An IEEE double: a finite value, one of the two infinities, or \<open>nan\<close>. The finite
  values are the multiples of \<open>pow2 (e - 52)\<close> of magnitude at most \<open>pow2 (e + 1)\<close>,
  for an exponent \<open>e\<close> from -1022 to 1023. The sign of a zero is not kept: the program
  only compares zeros, and \<open>-0.0 == 0.0\<close>.
\<close>

datatype pyfloat = Num real | PosInf | NegInf | NaN

definition pow2 :: "int \<Rightarrow> real" where
  "pow2 e = (if 0 \<le> e then 2 ^ nat e else 1 / 2 ^ nat (- e))"

text \<open>
  The exponent of a positive value \<open>x\<close>, the \<open>e\<close> with
  \<open>pow2 e \<le> x < pow2 (e + 1)\<close>, found by halving or doubling. It stops at 1024, from
  where every value rounds to an infinity, and at -1022, the exponent of the subnormal
  values.
\<close>

fun expo_up :: "nat \<Rightarrow> real \<Rightarrow> int" where
  "expo_up 0 x = 0"
| "expo_up (Suc n) x = (if x < 2 then 0 else 1 + expo_up n (x / 2))"

fun expo_down :: "nat \<Rightarrow> real \<Rightarrow> int" where
  "expo_down 0 x = 0"
| "expo_down (Suc n) x = (if 1 \<le> x then 0 else expo_down n (2 * x) - 1)"

definition expo :: "real \<Rightarrow> int" where
  "expo x = (if 1 \<le> x then expo_up 1024 x else expo_down 1022 x)"

text \<open>
  The double nearest to a real, a tie going to the even significand; a result of
  magnitude \<open>pow2 1024\<close> or more is an infinity. Every arithmetic operation on doubles
  returns this rounding of its exact result.
\<close>

definition to_double :: "real \<Rightarrow> pyfloat" where
  "to_double x =
     (if x = 0 then Num 0
      else (let u = pow2 (expo \<bar>x\<bar> - 52);
                y = real_of_int (round_half_even (x / u)) * u
            in if pow2 1024 \<le> \<bar>y\<bar> then (if 0 < x then PosInf else NegInf) else Num y))"

text \<open>
  \<open>float(n)\<close> of an \<open>int\<close>. Python raises \<open>OverflowError\<close> where the rounding is an
  infinity; the integers of an SQLite column have 64 bits and are far below that.
\<close>

definition float_int :: "int \<Rightarrow> pyfloat" where
  "float_int n = to_double (real_of_int n)"

text \<open>\<open>a - b\<close> on doubles.\<close>

fun float_sub :: "pyfloat \<Rightarrow> pyfloat \<Rightarrow> pyfloat" where
  "float_sub (Num x) (Num y) = to_double (x - y)"
| "float_sub NaN b = NaN"
| "float_sub a NaN = NaN"
| "float_sub PosInf PosInf = NaN"
| "float_sub NegInf NegInf = NaN"
| "float_sub PosInf b = PosInf"
| "float_sub NegInf b = NegInf"
| "float_sub (Num x) PosInf = NegInf"
| "float_sub (Num x) NegInf = PosInf"

text \<open>
  \<open>a / b\<close> on doubles, for a divisor that is not zero. Python raises
  \<open>ZeroDivisionError\<close> on a zero divisor; the one division of the program comes after
  the test \<open>max_price <= 0\<close> has failed, so its divisor is positive, infinite or
  \<open>nan\<close>.
\<close>

fun float_div :: "pyfloat \<Rightarrow> pyfloat \<Rightarrow> pyfloat" where
  "float_div (Num x) (Num y) = to_double (x / y)"
| "float_div NaN b = NaN"
| "float_div a NaN = NaN"
| "float_div (Num x) b = Num 0"
| "float_div PosInf (Num y) = (if 0 < y then PosInf else NegInf)"
| "float_div NegInf (Num y) = (if 0 < y then NegInf else PosInf)"
| "float_div a b = NaN"

text \<open>\<open>a <= b\<close> and \<open>a > b\<close> on doubles: every comparison with \<open>nan\<close> is false.\<close>

fun float_le :: "pyfloat \<Rightarrow> pyfloat \<Rightarrow> bool" where
  "float_le (Num x) (Num y) = (x \<le> y)"
| "float_le NaN b = False"
| "float_le a NaN = False"
| "float_le NegInf b = True"
| "float_le a PosInf = True"
| "float_le a b = False"

fun float_gt :: "pyfloat \<Rightarrow> pyfloat \<Rightarrow> bool" where
  "float_gt (Num x) (Num y) = (y < x)"
| "float_gt NaN b = False"
| "float_gt a NaN = False"
| "float_gt PosInf PosInf = False"
| "float_gt PosInf b = True"
| "float_gt a NegInf = (a \<noteq> NegInf)"
| "float_gt a b = False"

text \<open>
  The builtin \<open>max\<close> keeps its first argument and replaces it by each later one that
  is greater (\<open>>\<close>), so a \<open>nan\<close> in first place stays and a later \<open>nan\<close> is passed
  over.
\<close>

definition py_max :: "pyfloat \<Rightarrow> pyfloat list \<Rightarrow> pyfloat" where
  "py_max x xs = fold (\<lambda>item best. if float_gt item best then item else best) xs x"

text \<open>
  \<open>round(x, n)\<close> of a double, for the few places of the program: the exact value is
  rounded to \<open>n\<close> decimal places, a tie going to the even digit, and the double nearest
  to that decimal is returned. An infinity and \<open>nan\<close> are returned as they are.
\<close>

fun float_round :: "pyfloat \<Rightarrow> nat \<Rightarrow> pyfloat" where
  "float_round (Num x) n = to_double (py_round x n)"
| "float_round a n = a"

definition digit_char :: "nat \<Rightarrow> char" where
  "digit_char d = ''0123456789'' ! d"

fun digits :: "nat \<Rightarrow> string" where
  "digits n = (if n < 10 then [digit_char n] else digits (n div 10) @ [digit_char (n mod 10)])"

declare digits.simps [simp del]

definition str_int :: "int \<Rightarrow> string" where
  "str_int i = (if i < 0 then CHR ''-'' # digits (nat (- i)) else digits (nat i))"

definition fmt_0f :: "real \<Rightarrow> string" where
  "fmt_0f x = (if x < 0 then CHR ''-'' # digits (nat (round_half_even (- x)))
               else digits (nat (round_half_even x)))"

fun join :: "string \<Rightarrow> string list \<Rightarrow> string" where
  "join sep [] = []"
| "join sep [x] = x"
| "join sep (x # y # ys) = x @ sep @ join sep (y # ys)"

section \<open>Listings and settings\<close>

text \<open>
  A listing is the dictionary that \<open>to_dict_list\<close> makes of a \<open>Listing\<close>; keys that
  the code reads with \<open>get\<close> are optional. The key \<open>listing_id\<close> is read with
  \<open>listing["listing_id"]\<close> and is always present.
\<close>

record listing =
  listing_id :: string
  source :: "string option"
  url :: "string option"
  title :: "string option"
  address :: "string option"
  city :: "string option"
  price :: "int option"
  beds :: "real option"
  baths :: "real option"
  sqft :: "int option"
  description :: "string option"
  bc_assessed_value :: "int option"
  assessed :: "int option"
  signature :: "string option"

record signals_cfg =
  below_assessed_ratio :: "real option"
  price_drop_ratio_30d :: "real option"
  dom_days_cfg :: "int option"
  motivated_keywords_en :: "string list option"
  motivated_keywords_zh :: "string list option"

record settings =
  signals :: "signals_cfg option"

text \<open>The entries of \<open>DEFAULT_SETTINGS["signals"]\<close> that the scorer falls back to.\<close>

definition default_below_assessed_ratio :: real where
  "default_below_assessed_ratio = 95 / 100"

definition default_price_drop_ratio_30d :: real where
  "default_price_drop_ratio_30d = 5 / 100"

definition default_dom_days :: int where
  "default_dom_days = 45"

text \<open>\<open>settings.get("signals", {})\<close>: without the key, every lookup below finds nothing.\<close>

definition signals_of :: "settings \<Rightarrow> signals_cfg" where
  "signals_of s =
     (case signals s of
        Some c \<Rightarrow> c
      | None \<Rightarrow> \<lparr>below_assessed_ratio = None, price_drop_ratio_30d = None, dom_days_cfg = None,
                 motivated_keywords_en = None, motivated_keywords_zh = None\<rparr>)"

definition get_or :: "'a option \<Rightarrow> 'a \<Rightarrow> 'a" where
  "get_or v d = (case v of None \<Rightarrow> d | Some x \<Rightarrow> x)"

section \<open>The scorer: \<open>evaluate_listing\<close> (build\_alerts.py)\<close>

definition reason_below_assessed :: "real \<Rightarrow> string" where
  "reason_below_assessed gap =
     [CHR 0xE4, CHR 0xBD, CHR 0x8E, CHR 0xE4, CHR 0xBA, CHR 0x8E, CHR 0xE8, CHR 0xAF, CHR 0x84,
      CHR 0xE4, CHR 0xBC, CHR 0xB0, CHR 0xE4, CHR 0xBB, CHR 0xB7, CHR 0x20]
     @ fmt_0f (gap * 100) @ ''%''"

definition reason_price_drop :: "real \<Rightarrow> string" where
  "reason_price_drop r =
     [CHR 0xE8, CHR 0xBF, CHR 0x91, CHR 0x33, CHR 0x30, CHR 0xE5, CHR 0xA4, CHR 0xA9, CHR 0xE4,
      CHR 0xB8, CHR 0x8B, CHR 0xE9, CHR 0x99, CHR 0x8D, CHR 0x20]
     @ fmt_0f (r * 100) @ ''%''"

definition reason_long_dom :: "int \<Rightarrow> string" where
  "reason_long_dom d =
     [CHR 0xE6, CHR 0x8C, CHR 0x82, CHR 0xE7, CHR 0x89, CHR 0x8C, CHR 0x20]
     @ str_int d @ [CHR 0x20, CHR 0xE5, CHR 0xA4, CHR 0xA9]"

definition reason_keywords :: "string list \<Rightarrow> string" where
  "reason_keywords hits =
     [CHR 0xE5, CHR 0x8C, CHR 0x85, CHR 0xE5, CHR 0x90, CHR 0xAB, CHR 0xE5, CHR 0x85, CHR 0xB3,
      CHR 0xE9, CHR 0x94, CHR 0xAE, CHR 0xE8, CHR 0xAF, CHR 0x8D, CHR 0x3A, CHR 0x20]
     @ join '', '' (take 3 hits)"

definition reason_relist :: string where
  "reason_relist =
     [CHR 0xE5, CHR 0x8F, CHR 0xAF, CHR 0xE8, CHR 0x83, CHR 0xBD, CHR 0xE9, CHR 0x87, CHR 0x8D,
      CHR 0xE6, CHR 0x96, CHR 0xB0, CHR 0xE6, CHR 0x8C, CHR 0x82, CHR 0xE7, CHR 0x89, CHR 0x8C]"

record signal_flags =
  is_below_assessed :: bool
  is_price_drop :: bool
  is_long_dom :: bool
  has_motivated_keywords :: bool

text \<open>
  Each block of \<open>evaluate_listing\<close> adds to \<open>score\<close> and appends to \<open>reasons\<close>. A
  block is modelled by the triple of its flag, the amount it adds and the reasons it
  appends; \<open>evaluate_listing\<close> runs the five blocks in the order of the source.
\<close>

definition below_assessed_part :: "listing \<Rightarrow> signals_cfg \<Rightarrow> bool \<times> real \<times> string list" where
  "below_assessed_part l cfg =
     (let price_v = or_zero (price l);
          assessed_v = py_or (bc_assessed_value l) (assessed l);
          ratio_thresh = get_or (below_assessed_ratio cfg) default_below_assessed_ratio
      in case assessed_v of
           None \<Rightarrow> (False, 0, [])
         | Some a \<Rightarrow>
             if a = 0 then (False, 0, [])
             else
               (let ratio = real_of_int price_v / real_of_int (max 1 a);
                    gap = max 0 (1 - ratio)
                in if ratio \<le> ratio_thresh
                   then (True, gap * 220, [reason_below_assessed gap])
                   else (False, 0, [])))"

definition price_drop_part :: "real \<Rightarrow> signals_cfg \<Rightarrow> bool \<times> real \<times> string list" where
  "price_drop_part price_drop_ratio cfg =
     (let drop_thresh = get_or (price_drop_ratio_30d cfg) default_price_drop_ratio_30d;
          is_price_drop = (drop_thresh \<le> price_drop_ratio)
      in if is_price_drop
         then (True, price_drop_ratio * 140, [reason_price_drop price_drop_ratio])
         else (False, 0, []))"

definition long_dom_part :: "int option \<Rightarrow> signals_cfg \<Rightarrow> bool \<times> real \<times> string list" where
  "long_dom_part dom_days cfg =
     (let dom_thresh = get_or (dom_days_cfg cfg) default_dom_days
      in case dom_days of
           None \<Rightarrow> (False, 0, [])
         | Some d \<Rightarrow>
             if dom_thresh \<le> d
             then (True, min (real_of_int d / real_of_int (max 1 dom_thresh)) 2 * 60,
                   [reason_long_dom d])
             else (False, 0, []))"

definition keywords_part :: "string list \<Rightarrow> bool \<times> real \<times> string list" where
  "keywords_part hits =
     (if hits \<noteq> []
      then (True, 20 + real (min (length hits) 3) * 6, [reason_keywords hits])
      else (False, 0, []))"

definition relist_part :: "bool \<Rightarrow> real \<times> string list" where
  "relist_part is_relist = (if is_relist then (10, [reason_relist]) else (0, []))"

definition evaluate_listing ::
  "listing \<Rightarrow> int option \<Rightarrow> real \<Rightarrow> bool \<Rightarrow> string list \<Rightarrow> settings
     \<Rightarrow> real \<times> string list \<times> signal_flags" where
  "evaluate_listing l dom_days price_drop_ratio is_relist hits s =
     (let cfg = signals_of s;
          (below, s1, r1) = below_assessed_part l cfg;
          (drop, s2, r2) = price_drop_part price_drop_ratio cfg;
          (long, s3, r3) = long_dom_part dom_days cfg;
          (kw, s4, r4) = keywords_part hits;
          (s5, r5) = relist_part is_relist
      in (py_round (0 + s1 + s2 + s3 + s4 + s5) 2,
          r1 @ r2 @ r3 @ r4 @ r5,
          \<lparr>is_below_assessed = below, is_price_drop = drop, is_long_dom = long,
           has_motivated_keywords = kw\<rparr>))"


section \<open>The output ranker: \<open>build_outputs\<close> (build\_alerts.py)\<close>

record enriched =
  payload :: listing
  dom_days :: int
  price_drop_30d_ratio :: real
  is_relist :: bool
  reasons :: "string list"
  score :: real
  flags :: signal_flags

record deal =
  d_listing_id :: string
  d_source :: "string option"
  d_url :: "string option"
  d_title :: "string option"
  d_address :: "string option"
  d_city :: "string option"
  d_price :: "int option"
  d_beds :: "real option"
  d_baths :: "real option"
  d_sqft :: "int option"
  d_bc_assessed_value :: "int option"
  d_dom_days :: int
  d_price_drop_30d_ratio :: real
  d_is_relist :: bool
  d_score :: real
  d_reasons :: "string list"

record alert =
  a_listing_id :: string
  a_title :: "string option"
  a_city :: "string option"
  a_price :: "int option"
  a_url :: "string option"
  a_score :: real
  a_reasons :: "string list"

definition deal_of :: "enriched \<Rightarrow> deal" where
  "deal_of x =
     \<lparr>d_listing_id = listing_id (payload x), d_source = source (payload x),
      d_url = url (payload x), d_title = title (payload x), d_address = address (payload x),
      d_city = city (payload x), d_price = price (payload x), d_beds = beds (payload x),
      d_baths = baths (payload x), d_sqft = sqft (payload x),
      d_bc_assessed_value = bc_assessed_value (payload x), d_dom_days = dom_days x,
      d_price_drop_30d_ratio = price_drop_30d_ratio x, d_is_relist = is_relist x,
      d_score = score x, d_reasons = reasons x\<rparr>"

definition alert_of :: "enriched \<Rightarrow> alert" where
  "alert_of x =
     \<lparr>a_listing_id = listing_id (payload x), a_title = title (payload x),
      a_city = city (payload x), a_price = price (payload x), a_url = url (payload x),
      a_score = score x, a_reasons = reasons x\<rparr>"

text \<open>
  \<open>sorted(xs, key=k, reverse=True)\<close>: CPython reverses the list, sorts it stably in
  ascending order and reverses the result, which is what keeps equal keys in input order.
\<close>

definition sorted_reverse :: "('a \<Rightarrow> real) \<Rightarrow> 'a list \<Rightarrow> 'a list" where
  "sorted_reverse k xs = rev (sort_key k (rev xs))"

text \<open>The slice \<open>xs[:k]\<close>; a negative \<open>k\<close> counts from the end.\<close>

definition slice_to :: "int \<Rightarrow> 'a list \<Rightarrow> 'a list" where
  "slice_to k xs = (if 0 \<le> k then take (nat k) xs else take (nat (int (length xs) + k)) xs)"

definition build_outputs :: "enriched list \<Rightarrow> int \<Rightarrow> alert list \<times> deal list" where
  "build_outputs listings top_k =
     (let scored = sorted_reverse score listings;
          deals = map deal_of (slice_to top_k scored);
          alerts = map alert_of (slice_to 10 scored)
      in (alerts, deals))"

text \<open>The default of the parameter \<open>top_k\<close> and of the option \<open>--top-k\<close>.\<close>

definition default_top_k :: int where
  "default_top_k = 50"

section \<open>The store (db.py)\<close>

text \<open>
  Library functions of Python whose exact behaviour the properties below do not depend
  on are parameters of the model: the SHA-1 hex digest, \<open>str.lower\<close>, \<open>str.split\<close>,
  \<open>str\<close> of a number and \<open>float\<close> of a text, which gives a double, possibly an
  infinity or \<open>nan\<close>, and is \<open>None\<close> where Python raises \<open>ValueError\<close>.
\<close>

record pylib =
  sha1_hex :: "string \<Rightarrow> string"
  str_lower :: "string \<Rightarrow> string"
  str_split :: "string \<Rightarrow> string list"
  str_num :: "real \<Rightarrow> string"
  float_of :: "string \<Rightarrow> pyfloat option"

text \<open>
  The three tables, each in the order of its row ids. Every write of \<open>first_seen\<close>,
  \<open>last_seen\<close> and \<open>event_time\<close> stores the text that \<open>_iso\<close> makes, and every
  write of \<open>signature\<close> stores a text, so these columns are never \<open>NULL\<close> and never
  fail to parse.
\<close>

record row =
  r_listing_id :: string
  r_source :: "string option"
  r_url :: "string option"
  r_title :: "string option"
  r_address :: "string option"
  r_city :: "string option"
  r_price :: "int option"
  r_beds :: "real option"
  r_baths :: "real option"
  r_sqft :: "int option"
  r_assessed :: "int option"
  r_desc_hash :: string
  r_first_seen :: datetime
  r_last_seen :: datetime
  r_is_active :: bool
  r_signature :: string

record event =
  e_listing_id :: string
  event_time :: datetime
  event_type :: string
  old_value :: string
  new_value :: string

record store =
  listings_current :: "row list"
  listing_events :: "event list"
  listing_presence :: "(string \<times> datetime) list"

definition normalize_text :: "pylib \<Rightarrow> string option \<Rightarrow> string" where
  "normalize_text lib val =
     (case val of
        None \<Rightarrow> []
      | Some v \<Rightarrow> if v = [] then [] else join '' '' (str_split lib (str_lower lib v)))"

definition str_real_or_empty :: "pylib \<Rightarrow> real option \<Rightarrow> string" where
  "str_real_or_empty lib v =
     (case v of None \<Rightarrow> [] | Some x \<Rightarrow> if x = 0 then [] else str_num lib x)"

definition str_int_or_empty :: "int option \<Rightarrow> string" where
  "str_int_or_empty v = (if truthy v then str_int (or_zero v) else [])"

definition signature_for :: "pylib \<Rightarrow> listing \<Rightarrow> string" where
  "signature_for lib l =
     (let parts = [normalize_text lib (address l), normalize_text lib (city l),
                   str_real_or_empty lib (beds l), str_real_or_empty lib (baths l),
                   str_int_or_empty (sqft l)];
          raw = join ''||'' parts
      in sha1_hex lib raw)"

text \<open>\<open>SELECT ... WHERE listing_id=?\<close> followed by \<open>fetchone()\<close>.\<close>

definition select_row :: "store \<Rightarrow> string \<Rightarrow> row option" where
  "select_row st lid = find (\<lambda>r. r_listing_id r = lid) (listings_current st)"

text \<open>\<open>UPDATE listings_current SET ... WHERE listing_id=?\<close>.\<close>

definition update_rows :: "string \<Rightarrow> (row \<Rightarrow> row) \<Rightarrow> store \<Rightarrow> store" where
  "update_rows lid f st =
     st\<lparr>listings_current :=
          map (\<lambda>r. if r_listing_id r = lid then f r else r) (listings_current st)\<rparr>"

record upsert_result =
  price_changed :: bool
  old_price :: "int option"
  res_signature :: string

definition upsert_listing_current ::
  "pylib \<Rightarrow> store \<Rightarrow> listing \<Rightarrow> datetime \<Rightarrow> store \<times> upsert_result" where
  "upsert_listing_current lib st l seen_time =
     (let seen = iso seen_time;
          lid = listing_id l;
          sig = (case signature l of
                   None \<Rightarrow> signature_for lib l
                 | Some s \<Rightarrow> if s = [] then signature_for lib l else s);
          desc_hash = sha1_hex lib (case description l of None \<Rightarrow> [] | Some d \<Rightarrow> d)
      in case select_row st lid of
           Some r \<Rightarrow>
             (let old = r_price r;
                  changed = (case old of
                               None \<Rightarrow> False
                             | Some a \<Rightarrow> (case price l of None \<Rightarrow> False | Some b \<Rightarrow> a \<noteq> b))
              in (update_rows lid
                    (\<lambda>r. r\<lparr>r_source := source l, r_url := url l, r_title := title l,
                           r_address := address l, r_city := city l, r_price := price l,
                           r_beds := beds l, r_baths := baths l, r_sqft := sqft l,
                           r_assessed := py_or (bc_assessed_value l) (assessed l),
                           r_desc_hash := desc_hash, r_last_seen := seen, r_is_active := True,
                           r_signature := sig\<rparr>) st,
                  \<lparr>price_changed = changed, old_price = old, res_signature = sig\<rparr>))
         | None \<Rightarrow>
             (st\<lparr>listings_current := listings_current st @
                  [\<lparr>r_listing_id = lid, r_source = source l, r_url = url l, r_title = title l,
                    r_address = address l, r_city = city l, r_price = price l,
                    r_beds = beds l, r_baths = baths l, r_sqft = sqft l,
                    r_assessed = py_or (bc_assessed_value l) (assessed l),
                    r_desc_hash = desc_hash, r_first_seen = seen, r_last_seen = seen,
                    r_is_active = True, r_signature = sig\<rparr>]\<rparr>,
              \<lparr>price_changed = False, old_price = None, res_signature = sig\<rparr>))"

text \<open>The values that \<open>record_event\<close> is given, and \<open>str\<close> of them.\<close>

datatype pyval = PyNone | PyInt int | PyStr string

fun py_str :: "pyval \<Rightarrow> string" where
  "py_str PyNone = ''None''"
| "py_str (PyInt i) = str_int i"
| "py_str (PyStr s) = s"

definition opt_val :: "int option \<Rightarrow> pyval" where
  "opt_val v = (case v of None \<Rightarrow> PyNone | Some i \<Rightarrow> PyInt i)"

definition record_event ::
  "store \<Rightarrow> string \<Rightarrow> string \<Rightarrow> pyval \<Rightarrow> pyval \<Rightarrow> datetime \<Rightarrow> store" where
  "record_event st lid etype old new etime =
     st\<lparr>listing_events := listing_events st @
          [\<lparr>e_listing_id = lid, event_time = iso etime, event_type = etype,
            old_value = py_str old, new_value = py_str new\<rparr>]\<rparr>"

definition mark_seen :: "store \<Rightarrow> string \<Rightarrow> datetime \<Rightarrow> store" where
  "mark_seen st lid seen_time =
     (let seen = iso seen_time;
          st1 = st\<lparr>listing_presence := listing_presence st @ [(lid, seen)]\<rparr>
      in update_rows lid (\<lambda>r. r\<lparr>r_last_seen := seen, r_is_active := True\<rparr>) st1)"

definition mark_missing :: "store \<Rightarrow> string \<Rightarrow> datetime \<Rightarrow> store" where
  "mark_missing st lid missing_time =
     (let missing = iso missing_time;
          st1 = update_rows lid (\<lambda>r. r\<lparr>r_is_active := False, r_last_seen := missing\<rparr>) st
      in record_event st1 lid ''missing'' PyNone (PyStr ''missing'') missing_time)"

text \<open>
  \<open>get_listing_history\<close> reads the wall clock itself (\<open>utcnow()\<close>), here the argument
  \<open>clock\<close>. Rows with equal \<open>event_time\<close> come in table order.
\<close>

definition get_listing_history :: "datetime \<Rightarrow> store \<Rightarrow> string \<Rightarrow> int \<Rightarrow> event list" where
  "get_listing_history clock st lid days =
     (let cutoff = iso (clock - days * day_us)
      in sort_key event_time
           (filter (\<lambda>e. e_listing_id e = lid \<and> cutoff \<le> event_time e) (listing_events st)))"

definition compute_dom_days :: "store \<Rightarrow> string \<Rightarrow> datetime \<Rightarrow> int option" where
  "compute_dom_days st lid now =
     (case select_row st lid of
        None \<Rightarrow> None
      | Some r \<Rightarrow> Some (max 0 (days_between now (r_first_seen r))))"

text \<open>
  The loop of \<open>compute_price_drop_30d\<close> over the events: both conversions stand in one
  \<open>try\<close>, so a failure of the first leaves the event, a failure of the second comes
  after the first value was appended.
\<close>

fun collect_prices :: "(string \<Rightarrow> pyfloat option) \<Rightarrow> event list \<Rightarrow> pyfloat list" where
  "collect_prices to_float [] = []"
| "collect_prices to_float (ev # evs) =
     (if event_type ev = ''price_change'' then
        (case to_float (old_value ev) of
           None \<Rightarrow> []
         | Some a \<Rightarrow> a # (case to_float (new_value ev) of None \<Rightarrow> [] | Some b \<Rightarrow> [b]))
      else [])
     @ collect_prices to_float evs"

definition compute_price_drop_30d :: "pylib \<Rightarrow> datetime \<Rightarrow> store \<Rightarrow> string \<Rightarrow> datetime \<Rightarrow> pyfloat" where
  "compute_price_drop_30d lib clock st lid now =
     (case select_row st lid of
        None \<Rightarrow> Num 0
      | Some r \<Rightarrow>
          (let current_price = or_zero (r_price r);
               cutoff = now - 30 * day_us;
               events = get_listing_history clock st lid 30;
               prices = collect_prices (float_of lib) events @ [float_int current_price]
           in case prices of
                [] \<Rightarrow> Num 0
              | p # ps \<Rightarrow>
                  (let max_price = py_max p ps
                   in if float_le max_price (Num 0) then Num 0
                      else (let drop = float_div (float_sub max_price (float_int current_price))
                                         max_price
                            in float_round (py_max drop [Num 0]) 4))))"

text \<open>
  \<open>ORDER BY key DESC LIMIT 1\<close>. SQLite leaves open which of several rows with the
  greatest key comes first; the model takes the first of them in table order.
\<close>

fun latest_by :: "('a \<Rightarrow> int) \<Rightarrow> 'a list \<Rightarrow> 'a option" where
  "latest_by k [] = None"
| "latest_by k (x # xs) =
     (case latest_by k xs of
        None \<Rightarrow> Some x
      | Some y \<Rightarrow> if k y \<le> k x then Some x else Some y)"

definition detect_relist :: "store \<Rightarrow> string \<Rightarrow> datetime \<Rightarrow> bool" where
  "detect_relist st lid now =
     (case select_row st lid of
        None \<Rightarrow> False
      | Some r \<Rightarrow>
          if r_signature r = [] then False
          else
            (let sig = r_signature r;
                 missing_row = latest_by event_time
                   (filter (\<lambda>e. e_listing_id e = lid \<and> event_type e = ''missing'')
                      (listing_events st))
             in if (case missing_row of
                      None \<Rightarrow> False
                    | Some e \<Rightarrow> 7 \<le> days_between now (event_time e))
                then True
                else
                  (case latest_by r_last_seen
                          (filter (\<lambda>x. r_signature x = sig \<and> r_listing_id x \<noteq> lid)
                             (listings_current st)) of
                     None \<Rightarrow> False
                   | Some other \<Rightarrow>
                       if \<not> r_is_active other
                       then (if 7 \<le> days_between now (r_last_seen other) then True else True)
                       else False)))"

section \<open>The enrichment pipeline: \<open>enrich_listings\<close> (build\_alerts.py)\<close>

definition keyword_hits :: "pylib \<Rightarrow> string option \<Rightarrow> settings \<Rightarrow> string list" where
  "keyword_hits lib text s =
     (let txt = (case text of None \<Rightarrow> [] | Some d \<Rightarrow> d);
          t = str_lower lib txt;
          cfg = signals_of s
      in filter (\<lambda>k. sublist (str_lower lib k) t) (get_or (motivated_keywords_en cfg) [])
         @ filter (\<lambda>k. sublist k txt) (get_or (motivated_keywords_zh cfg) []))"

text \<open>
  The state of the loop over the batch: the store, the records made so far and the set
  \<open>seen_ids\<close>. \<open>now\<close> is the one reading of the clock at the start of the run;
  \<open>clock\<close> is the reading that \<open>get_listing_history\<close> takes for itself.

  The scorer and the records are real-valued. A drop ratio that is an infinity or
  \<open>nan\<close> (which takes an event text that \<open>float\<close> reads as such, or a negative
  stored price) gives a record that they cannot express: the record of that listing is
  \<open>None\<close> here, the store is written as for every other listing.
\<close>

definition enrich_one ::
  "pylib \<Rightarrow> settings \<Rightarrow> datetime \<Rightarrow> datetime \<Rightarrow> listing
     \<Rightarrow> store \<times> enriched option list \<times> string set
     \<Rightarrow> store \<times> enriched option list \<times> string set" where
  "enrich_one lib s clock now raw acc =
     (case acc of (st, out, seen_ids) \<Rightarrow>
        (let pl = raw\<lparr>signature := Some (signature_for lib raw)\<rparr>;
             (st1, result) = upsert_listing_current lib st pl now;
             st2 = (if price_changed result
                    then record_event st1 (listing_id pl) ''price_change''
                           (opt_val (old_price result)) (opt_val (price pl)) now
                    else st1);
             st3 = mark_seen st2 (listing_id pl) now;
             dom = (case compute_dom_days st3 (listing_id pl) now of None \<Rightarrow> 0 | Some d \<Rightarrow> d);
             ratio = compute_price_drop_30d lib clock st3 (listing_id pl) now;
             relist = detect_relist st3 (listing_id pl) now;
             hits = keyword_hits lib (description pl) s
         in (st3,
             out @ [case ratio of
                      Num r \<Rightarrow>
                        (let (sc, rs, fl) = evaluate_listing pl (Some dom) r relist hits s
                         in Some \<lparr>payload = pl, dom_days = dom, price_drop_30d_ratio = r,
                                  is_relist = relist, reasons = rs, score = sc, flags = fl\<rparr>)
                    | _ \<Rightarrow> None],
             insert (listing_id pl) seen_ids)))"

text \<open>
  \<open>previously_active\<close> and \<open>missing_ids\<close> are Python sets; the loop over
  \<open>missing_ids\<close> visits each of its members once, here in table order.
\<close>

definition previously_active :: "store \<Rightarrow> string list" where
  "previously_active st = map r_listing_id (filter r_is_active (listings_current st))"

definition mark_all_missing :: "string list \<Rightarrow> datetime \<Rightarrow> store \<Rightarrow> store" where
  "mark_all_missing mids now st = fold (\<lambda>mid st'. mark_missing st' mid now) mids st"

definition enrich_listings ::
  "pylib \<Rightarrow> settings \<Rightarrow> datetime \<Rightarrow> datetime \<Rightarrow> listing list \<Rightarrow> store
     \<Rightarrow> store \<times> enriched option list" where
  "enrich_listings lib s clock now listings st =
     (let prev = remdups (previously_active st);
          (st1, out, seen_ids) = fold (enrich_one lib s clock now) listings (st, [], {});
          missing_ids = filter (\<lambda>i. i \<notin> seen_ids) prev
      in (mark_all_missing missing_ids now st1, out))"

section \<open>Notions used in the statements\<close>

text \<open>A listing with the given id, price and assessed value, every other key absent.\<close>

definition listing_with :: "string \<Rightarrow> int option \<Rightarrow> int option \<Rightarrow> listing" where
  "listing_with lid p a =
     \<lparr>listing_id = lid, source = None, url = None, title = None, address = None, city = None,
      price = p, beds = None, baths = None, sqft = None, description = None,
      bc_assessed_value = a, assessed = None, signature = None\<rparr>"

text \<open>The first component of the result of \<open>evaluate_listing\<close>.\<close>

definition score_of :: "real \<times> string list \<times> signal_flags \<Rightarrow> real" where
  "score_of res = fst res"

text \<open>The local \<open>gap\<close> of \<open>evaluate_listing\<close>, defined when \<open>assessed\<close> is truthy.\<close>

definition assessed_gap :: "listing \<Rightarrow> real option" where
  "assessed_gap l =
     (case py_or (bc_assessed_value l) (assessed l) of
        None \<Rightarrow> None
      | Some a \<Rightarrow>
          if a = 0 then None
          else Some (max 0 (1 - real_of_int (or_zero (price l)) / real_of_int (max 1 a))))"

text \<open>
  A stand-in for the library functions in closed examples. \<open>float_of_decimal\<close> reads
  an optional minus sign followed by decimal digits, as \<open>float\<close> does on the texts that
  \<open>str\<close> makes of an \<open>int\<close>, reads the words \<open>inf\<close> and \<open>nan\<close>, and fails on
  \<open>None\<close> and on other words. The hash and the case mapping are the identity; the
  examples use them only to compare texts.
\<close>

definition digit_of :: "char \<Rightarrow> nat option" where
  "digit_of c =
     map_of [(CHR ''0'', 0), (CHR ''1'', 1), (CHR ''2'', 2), (CHR ''3'', 3), (CHR ''4'', 4),
             (CHR ''5'', 5), (CHR ''6'', 6), (CHR ''7'', 7), (CHR ''8'', 8), (CHR ''9'', 9)] c"

fun digits_value :: "string \<Rightarrow> nat \<Rightarrow> nat option" where
  "digits_value [] acc = Some acc"
| "digits_value (c # cs) acc =
     (case digit_of c of None \<Rightarrow> None | Some d \<Rightarrow> digits_value cs (10 * acc + d))"

definition float_of_decimal :: "string \<Rightarrow> pyfloat option" where
  "float_of_decimal s =
     (if s = ''inf'' then Some PosInf
      else if s = ''nan'' then Some NaN
      else case s of
        [] \<Rightarrow> None
      | c # cs \<Rightarrow>
          if c = CHR ''-''
          then (if cs = [] then None
                else map_option (\<lambda>n. to_double (- real n)) (digits_value cs 0))
          else map_option (\<lambda>n. to_double (real n)) (digits_value s 0))"

definition plain_lib :: pylib where
  "plain_lib =
     \<lparr>sha1_hex = (\<lambda>s. s), str_lower = (\<lambda>s. s), str_split = (\<lambda>s. [s]),
      str_num = (\<lambda>x. ''x''), float_of = float_of_decimal\<rparr>"

text \<open>
  A row with the given id, price, signature, activity and times, every other column
  empty; a store with the given rows and events; an event.
\<close>

definition row_with :: "string \<Rightarrow> int option \<Rightarrow> string \<Rightarrow> bool \<Rightarrow> datetime \<Rightarrow> datetime \<Rightarrow> row" where
  "row_with lid p sig act fs ls =
     \<lparr>r_listing_id = lid, r_source = None, r_url = None, r_title = None, r_address = None,
      r_city = None, r_price = p, r_beds = None, r_baths = None, r_sqft = None,
      r_assessed = None, r_desc_hash = [], r_first_seen = fs, r_last_seen = ls,
      r_is_active = act, r_signature = sig\<rparr>"

definition store_of :: "row list \<Rightarrow> event list \<Rightarrow> store" where
  "store_of rows evs = \<lparr>listings_current = rows, listing_events = evs, listing_presence = []\<rparr>"

definition event_of :: "string \<Rightarrow> datetime \<Rightarrow> string \<Rightarrow> string \<Rightarrow> string \<Rightarrow> event" where
  "event_of lid t ty old new =
     \<lparr>e_listing_id = lid, event_time = t, event_type = ty, old_value = old, new_value = new\<rparr>"

text \<open>The invariant of the data model: no row was first seen after it was last seen.\<close>

definition seen_ordered :: "store \<Rightarrow> bool" where
  "seen_ordered st = list_all (\<lambda>r. r_first_seen r \<le> r_last_seen r) (listings_current st)"



text \<open>
  The drop ratio in the words of the specification: every numeric old or new value of
  the \<open>price_change\<close> events of the trailing 30 days, each converted by itself,
  together with the current price; zero when their maximum is not positive, and
  otherwise the rounded quotient.
\<close>

definition numeric_values :: "(string \<Rightarrow> pyfloat option) \<Rightarrow> event \<Rightarrow> pyfloat list" where
  "numeric_values to_float e =
     (case to_float (old_value e) of None \<Rightarrow> [] | Some a \<Rightarrow> [a])
     @ (case to_float (new_value e) of None \<Rightarrow> [] | Some b \<Rightarrow> [b])"

definition spec_collect_prices :: "(string \<Rightarrow> pyfloat option) \<Rightarrow> event list \<Rightarrow> pyfloat list" where
  "spec_collect_prices to_float evs =
     concat (map (numeric_values to_float) (filter (\<lambda>e. event_type e = ''price_change'') evs))"

definition spec_price_drop_30d :: "pylib \<Rightarrow> store \<Rightarrow> string \<Rightarrow> datetime \<Rightarrow> pyfloat" where
  "spec_price_drop_30d lib st lid now =
     (case select_row st lid of
        None \<Rightarrow> Num 0
      | Some r \<Rightarrow>
          (let current_price = float_int (or_zero (r_price r));
               max_price = py_max current_price
                  (spec_collect_prices (float_of lib)
                     (filter (\<lambda>e. e_listing_id e = lid \<and> now - 30 * day_us \<le> event_time e)
                        (listing_events st)))
           in if float_le max_price (Num 0) then Num 0
              else float_round
                     (py_max (Num 0) [float_div (float_sub max_price current_price) max_price])
                     4))"


text \<open>
  The notions of relist detection, said without the queries: the \<open>missing\<close> events of
  an id; whether the most recent of them is at least 7 days old; the other rows with the
  signature of the id; those of them that were seen last.
\<close>

definition missing_events :: "store \<Rightarrow> string \<Rightarrow> event list" where
  "missing_events st lid =
     filter (\<lambda>e. e_listing_id e = lid \<and> event_type e = ''missing'') (listing_events st)"

definition last_missing_old :: "store \<Rightarrow> string \<Rightarrow> datetime \<Rightarrow> bool" where
  "last_missing_old st lid now =
     list_ex (\<lambda>e. list_all (\<lambda>e'. event_time e' \<le> event_time e) (missing_events st lid)
                  \<and> 7 \<le> days_between now (event_time e))
       (missing_events st lid)"

definition same_signature_others :: "store \<Rightarrow> string \<Rightarrow> row list" where
  "same_signature_others st lid =
     (case select_row st lid of
        None \<Rightarrow> []
      | Some r \<Rightarrow>
          filter (\<lambda>x. r_signature x = r_signature r \<and> r_listing_id x \<noteq> lid)
            (listings_current st))"

definition latest_others :: "store \<Rightarrow> string \<Rightarrow> row list" where
  "latest_others st lid =
     filter (\<lambda>x. list_all (\<lambda>y. r_last_seen y \<le> r_last_seen x) (same_signature_others st lid))
       (same_signature_others st lid)"

text \<open>
  Relist detection in the words of the specification: the most recent \<open>missing\<close> event
  is at least 7 days old, or some other id with the same signature is inactive.
\<close>

definition spec_detect_relist :: "store \<Rightarrow> string \<Rightarrow> datetime \<Rightarrow> bool" where
  "spec_detect_relist st lid now =
     (last_missing_old st lid now
      \<or> list_ex (\<lambda>x. \<not> r_is_active x) (same_signature_others st lid))"


text \<open>
  The rows and the events of one id, and a sequence of runs of the pipeline, each with
  its clock reading, its timestamp and its batch.
\<close>

definition rows_of :: "store \<Rightarrow> string \<Rightarrow> row list" where
  "rows_of st lid = filter (\<lambda>r. r_listing_id r = lid) (listings_current st)"

definition events_of :: "store \<Rightarrow> string \<Rightarrow> event list" where
  "events_of st lid = filter (\<lambda>e. e_listing_id e = lid) (listing_events st)"

definition missing_event :: "string \<Rightarrow> datetime \<Rightarrow> event" where
  "missing_event lid now =
     \<lparr>e_listing_id = lid, event_time = iso now, event_type = ''missing'',
      old_value = ''None'', new_value = ''missing''\<rparr>"

definition run :: "pylib \<Rightarrow> settings \<Rightarrow> datetime \<times> datetime \<times> listing list \<Rightarrow> store \<Rightarrow> store" where
  "run lib s r st = (case r of (clock, now, batch) \<Rightarrow> fst (enrich_listings lib s clock now batch st))"

definition runs :: "pylib \<Rightarrow> settings \<Rightarrow> (datetime \<times> datetime \<times> listing list) list \<Rightarrow> store \<Rightarrow> store" where
  "runs lib s rs st = fold (run lib s) rs st"

definition batch_of :: "datetime \<times> datetime \<times> listing list \<Rightarrow> listing list" where
  "batch_of r = snd (snd r)"


(*PROPERTIES*)
section \<open>Rounding\<close>

lemma round_half_even_mono: "x \<le> y \<Longrightarrow> round_half_even x \<le> round_half_even y"
proof -
  assume xy: "x \<le> y"
  have fl: "\<lfloor>x\<rfloor> \<le> \<lfloor>y\<rfloor>" using xy by (rule floor_mono)
  show ?thesis
  proof (cases "\<lfloor>x\<rfloor> = \<lfloor>y\<rfloor>")
    case True
    then show ?thesis using xy
      by (auto simp: round_half_even_def Let_def)
  next
    case False
    then have "\<lfloor>x\<rfloor> + 1 \<le> \<lfloor>y\<rfloor>" using fl by simp
    moreover have "round_half_even x \<le> \<lfloor>x\<rfloor> + 1"
      by (simp add: round_half_even_def Let_def)
    moreover have "\<lfloor>y\<rfloor> \<le> round_half_even y"
      by (simp add: round_half_even_def Let_def)
    ultimately show ?thesis by linarith
  qed
qed

lemma py_round_mono: "x \<le> y \<Longrightarrow> py_round x n \<le> py_round y n"
  unfolding py_round_def
  by (intro divide_right_mono) (auto intro!: round_half_even_mono mult_right_mono)

lemma round_half_even_of_int: "round_half_even (of_int k) = k"
  by (simp add: round_half_even_def)

lemma round_half_even_nonneg: "0 \<le> x \<Longrightarrow> 0 \<le> round_half_even x"
  using round_half_even_mono [of 0 x] round_half_even_of_int [of 0] by simp

lemma py_round_nonneg: "0 \<le> x \<Longrightarrow> 0 \<le> py_round x n"
  using py_round_mono [of 0 x n] by (simp add: py_round_def round_half_even_def)

lemma py_round_le_one: "x \<le> 1 \<Longrightarrow> py_round x n \<le> 1"
proof -
  assume "x \<le> 1"
  then have "py_round x n \<le> py_round 1 n" by (rule py_round_mono)
  also have "py_round 1 n = 1"
    using round_half_even_of_int [of "10 ^ n"] by (simp add: py_round_def)
  finally show ?thesis .
qed

section \<open>Properties of the scorer\<close>

lemma digits_5: "digits 5 = ''5''"
  by (simp add: digits.simps digit_char_def)

text \<open>
  C5. With a price of 950,000, an assessed value of 1,000,000 and no other signal, the
  ratio 0.95 meets the default threshold 0.95, so the below-assessed check triggers; the
  gap is 0.05, the check adds 11 points, which is the whole score, and the reason ends in
  \<open>5%\<close>.
\<close>

theorem below_assessed_scenario:
  "real_of_int 950000 / real_of_int (max 1 1000000) = default_below_assessed_ratio
   \<and> assessed_gap (listing_with ''a'' (Some 950000) (Some 1000000)) = Some (5 / 100)
   \<and> below_assessed_part (listing_with ''a'' (Some 950000) (Some 1000000)) (signals_of \<lparr>signals = None\<rparr>)
       = (True, 11, [reason_below_assessed (5 / 100)])
   \<and> reason_below_assessed (5 / 100) =
       [CHR 0xE4, CHR 0xBD, CHR 0x8E, CHR 0xE4, CHR 0xBA, CHR 0x8E, CHR 0xE8, CHR 0xAF, CHR 0x84,
        CHR 0xE4, CHR 0xBC, CHR 0xB0, CHR 0xE4, CHR 0xBB, CHR 0xB7, CHR 0x20] @ ''5%''
   \<and> evaluate_listing (listing_with ''a'' (Some 950000) (Some 1000000)) None 0 False []
         \<lparr>signals = None\<rparr>
       = (11, [reason_below_assessed (5 / 100)],
          \<lparr>is_below_assessed = True, is_price_drop = False, is_long_dom = False,
           has_motivated_keywords = False\<rparr>)"
proof -
  let ?l = "listing_with ''a'' (Some 950000) (Some 1000000)"
  have r: "real_of_int 950000 / real_of_int (max 1 1000000) = default_below_assessed_ratio"
    by (simp add: default_below_assessed_ratio_def)
  have g: "assessed_gap ?l = Some (5 / 100)"
    by (simp add: assessed_gap_def listing_with_def py_or_def truthy_def or_zero_def)
  have b: "below_assessed_part ?l (signals_of \<lparr>signals = None\<rparr>)
           = (True, 11, [reason_below_assessed (5 / 100)])"
    by (simp add: below_assessed_part_def listing_with_def py_or_def truthy_def or_zero_def
        signals_of_def get_or_def default_below_assessed_ratio_def Let_def)
  have f: "fmt_0f (5 / 100 * 100) = ''5''"
    by (simp add: fmt_0f_def round_half_even_def digits_5)
  have s: "reason_below_assessed (5 / 100) =
       [CHR 0xE4, CHR 0xBD, CHR 0x8E, CHR 0xE4, CHR 0xBA, CHR 0x8E, CHR 0xE8, CHR 0xAF, CHR 0x84,
        CHR 0xE4, CHR 0xBC, CHR 0xB0, CHR 0xE4, CHR 0xBB, CHR 0xB7, CHR 0x20] @ ''5%''"
    unfolding reason_below_assessed_def f by simp
  have p: "py_round 11 2 = 11"
    by (simp add: py_round_def round_half_even_def)
  have e: "evaluate_listing ?l None 0 False [] \<lparr>signals = None\<rparr>
       = (11, [reason_below_assessed (5 / 100)],
          \<lparr>is_below_assessed = True, is_price_drop = False, is_long_dom = False,
           has_motivated_keywords = False\<rparr>)"
    unfolding evaluate_listing_def Let_def b
    by (simp add: price_drop_part_def long_dom_part_def keywords_part_def relist_part_def
        signals_of_def get_or_def default_price_drop_ratio_30d_def p)
  from r g b s e show ?thesis by blast
qed


lemma score_of_evaluate:
  "score_of (evaluate_listing l d r b h s) =
     py_round (fst (snd (below_assessed_part l (signals_of s)))
             + fst (snd (price_drop_part r (signals_of s)))
             + fst (snd (long_dom_part d (signals_of s)))
             + fst (snd (keywords_part h))
             + fst (relist_part b)) 2"
  by (simp add: score_of_def evaluate_listing_def Let_def split_beta)

lemma below_assessed_amount:
  "assessed_gap l = Some g \<Longrightarrow>
   fst (snd (below_assessed_part l cfg)) =
     (if 1 - g \<le> get_or (below_assessed_ratio cfg) default_below_assessed_ratio \<and> 0 < g
      then g * 220 else 0)"
  by (auto simp: assessed_gap_def below_assessed_part_def Let_def max_def
      split: option.splits if_splits)

lemma below_assessed_mono:
  assumes "assessed_gap l1 = Some g1" "assessed_gap l2 = Some g2" "g1 \<le> g2"
  shows "fst (snd (below_assessed_part l1 cfg)) \<le> fst (snd (below_assessed_part l2 cfg))"
proof -
  have "0 \<le> g1" using assms(1)
    by (auto simp: assessed_gap_def split: option.splits if_splits)
  then show ?thesis
    using assms by (auto simp: below_assessed_amount)
qed

lemma price_drop_mono:
  assumes "0 \<le> r1" "r1 \<le> r2"
  shows "fst (snd (price_drop_part r1 cfg)) \<le> fst (snd (price_drop_part r2 cfg))"
  using assms by (auto simp: price_drop_part_def Let_def)

lemma long_dom_amount:
  "fst (snd (long_dom_part (Some d) cfg)) =
     (if get_or (dom_days_cfg cfg) default_dom_days \<le> d
      then min (real_of_int d / real_of_int (max 1 (get_or (dom_days_cfg cfg) default_dom_days))) 2 * 60
      else 0)"
  by (simp add: long_dom_part_def Let_def)

lemma long_dom_mono:
  assumes "0 \<le> d1" "d1 \<le> d2"
  shows "fst (snd (long_dom_part (Some d1) cfg)) \<le> fst (snd (long_dom_part (Some d2) cfg))"
proof -
  define t where "t = get_or (dom_days_cfg cfg) default_dom_days"
  define m where "m = real_of_int (max 1 t)"
  have m: "0 < m" by (simp add: m_def)
  have le: "real_of_int d1 / m \<le> real_of_int d2 / m"
    using assms(2) m by (simp add: divide_right_mono)
  have nn: "0 \<le> real_of_int d2 / m"
    using assms m by simp
  have a1: "fst (snd (long_dom_part (Some d1) cfg)) = (if t \<le> d1 then min (real_of_int d1 / m) 2 * 60 else 0)"
    by (simp add: long_dom_amount t_def m_def)
  have a2: "fst (snd (long_dom_part (Some d2) cfg)) = (if t \<le> d2 then min (real_of_int d2 / m) 2 * 60 else 0)"
    by (simp add: long_dom_amount t_def m_def)
  show ?thesis
  proof (cases "t \<le> d1")
    case True
    then have "t \<le> d2" using assms(2) by simp
    with True le show ?thesis unfolding a1 a2 by (simp add: min_def)
  next
    case False
    with nn show ?thesis unfolding a1 a2 by (simp add: min_def)
  qed
qed

lemma keywords_mono:
  assumes "length h1 \<le> length h2"
  shows "fst (snd (keywords_part h1)) \<le> fst (snd (keywords_part h2))"
  using assms by (auto simp: keywords_part_def min_def)

text \<open>
  C6. The score does not decrease when, every other argument of the scorer being the
  same, the below-assessed gap grows, the price-drop ratio grows, the days on market
  grow (the factor is capped at 2, beyond which the term is constant), or the number of
  keyword hits grows. The price-drop ratio and the days on market are taken in their
  ranges: a ratio is not negative, a number of days is not negative.
\<close>

theorem score_monotone:
  "(assessed_gap la = Some ga \<and> assessed_gap lb = Some gb \<and> ga \<le> gb \<longrightarrow>
      score_of (evaluate_listing la d r b h s) \<le> score_of (evaluate_listing lb d r b h s))
   \<and> (0 \<le> ra \<and> ra \<le> rb \<longrightarrow>
      score_of (evaluate_listing l d ra b h s) \<le> score_of (evaluate_listing l d rb b h s))
   \<and> (0 \<le> da \<and> da \<le> db \<longrightarrow>
      score_of (evaluate_listing l (Some da) r b h s)
        \<le> score_of (evaluate_listing l (Some db) r b h s))
   \<and> (length ha \<le> length hb \<longrightarrow>
      score_of (evaluate_listing l d r b ha s) \<le> score_of (evaluate_listing l d r b hb s))"
proof (intro conjI impI)
  assume "assessed_gap la = Some ga \<and> assessed_gap lb = Some gb \<and> ga \<le> gb"
  then have "fst (snd (below_assessed_part la (signals_of s)))
             \<le> fst (snd (below_assessed_part lb (signals_of s)))"
    using below_assessed_mono by blast
  then show "score_of (evaluate_listing la d r b h s) \<le> score_of (evaluate_listing lb d r b h s)"
    unfolding score_of_evaluate by (intro py_round_mono) simp
next
  assume "0 \<le> ra \<and> ra \<le> rb"
  then have "fst (snd (price_drop_part ra (signals_of s)))
             \<le> fst (snd (price_drop_part rb (signals_of s)))"
    using price_drop_mono by blast
  then show "score_of (evaluate_listing l d ra b h s) \<le> score_of (evaluate_listing l d rb b h s)"
    unfolding score_of_evaluate by (intro py_round_mono) simp
next
  assume "0 \<le> da \<and> da \<le> db"
  then have "fst (snd (long_dom_part (Some da) (signals_of s)))
             \<le> fst (snd (long_dom_part (Some db) (signals_of s)))"
    using long_dom_mono by blast
  then show "score_of (evaluate_listing l (Some da) r b h s)
        \<le> score_of (evaluate_listing l (Some db) r b h s)"
    unfolding score_of_evaluate by (intro py_round_mono) simp
next
  assume "length ha \<le> length hb"
  then have "fst (snd (keywords_part ha)) \<le> fst (snd (keywords_part hb))"
    by (rule keywords_mono)
  then show "score_of (evaluate_listing l d r b ha s) \<le> score_of (evaluate_listing l d r b hb s)"
    unfolding score_of_evaluate by (intro py_round_mono) simp
qed


theorem score_monotone_witness:
  "assessed_gap (listing_with ''a'' (Some 950000) (Some 1000000)) = Some (5 / 100)
   \<and> assessed_gap (listing_with ''a'' (Some 900000) (Some 1000000)) = Some (10 / 100)
   \<and> (5 / 100 :: real) \<le> 10 / 100
   \<and> score_of (evaluate_listing (listing_with ''a'' (Some 950000) (Some 1000000))
                  None 0 False [] \<lparr>signals = None\<rparr>)
       \<le> score_of (evaluate_listing (listing_with ''a'' (Some 900000) (Some 1000000))
                  None 0 False [] \<lparr>signals = None\<rparr>)
   \<and> (0 :: real) \<le> 5 / 100 \<and> (5 / 100 :: real) \<le> 10 / 100
   \<and> score_of (evaluate_listing (listing_with ''a'' None None) None (5 / 100) False []
                  \<lparr>signals = None\<rparr>)
       \<le> score_of (evaluate_listing (listing_with ''a'' None None) None (10 / 100) False []
                  \<lparr>signals = None\<rparr>)
   \<and> (0 :: int) \<le> 45 \<and> (45 :: int) \<le> 200
   \<and> score_of (evaluate_listing (listing_with ''a'' None None) (Some 45) 0 False []
                  \<lparr>signals = None\<rparr>)
       \<le> score_of (evaluate_listing (listing_with ''a'' None None) (Some 200) 0 False []
                  \<lparr>signals = None\<rparr>)
   \<and> length ([] :: string list) \<le> length [''motivated'']
   \<and> score_of (evaluate_listing (listing_with ''a'' None None) None 0 False []
                  \<lparr>signals = None\<rparr>)
       \<le> score_of (evaluate_listing (listing_with ''a'' None None) None 0 False [''motivated'']
                  \<lparr>signals = None\<rparr>)"
proof -
  let ?s = "\<lparr>signals = None\<rparr>"
  let ?n = "listing_with ''a'' None None"
  have ga: "assessed_gap (listing_with ''a'' (Some 950000) (Some 1000000)) = Some (5 / 100)"
    by (simp add: assessed_gap_def listing_with_def py_or_def truthy_def or_zero_def)
  have gb: "assessed_gap (listing_with ''a'' (Some 900000) (Some 1000000)) = Some (10 / 100)"
    by (simp add: assessed_gap_def listing_with_def py_or_def truthy_def or_zero_def)
  note m = score_monotone [where la = "listing_with ''a'' (Some 950000) (Some 1000000)"
      and lb = "listing_with ''a'' (Some 900000) (Some 1000000)"
      and ga = "5 / 100" and gb = "10 / 100" and d = None and r = 0 and b = False
      and h = "[]" and s = ?s and ra = "5 / 100" and rb = "10 / 100" and l = ?n
      and da = 45 and db = 200 and ha = "[]" and hb = "[''motivated'']"]
  from m ga gb show ?thesis by simp
qed

section \<open>Properties of the output ranker\<close>

lemma mset_sorted_reverse: "mset (sorted_reverse k xs) = mset xs"
  by (simp add: sorted_reverse_def)

lemma sorted_reverse_descending:
  "sorted_wrt (\<lambda>a b. k b \<le> k a) (sorted_reverse k xs)"
proof -
  have "sorted (map k (sort_key k (rev xs)))" by (rule sorted_sort_key)
  then have "sorted_wrt (\<lambda>a b. k a \<le> k b) (sort_key k (rev xs))"
    by (simp add: sorted_map)
  then show ?thesis
    by (simp add: sorted_reverse_def sorted_wrt_rev)
qed

lemma sorted_reverse_stable:
  "filter (\<lambda>x. k x = v) (sorted_reverse k xs) = filter (\<lambda>x. k x = v) xs"
proof -
  have "filter (\<lambda>x. k x = v) (sort_key k (rev xs)) = filter (\<lambda>x. k x = v) (rev xs)"
    by (rule sort_key_stable)
  then show ?thesis
    by (simp add: sorted_reverse_def rev_filter [symmetric])
qed

text \<open>
  C7. There is one ranked sequence of the records: a permutation of the input whose
  scores never increase and in which, for every score, the records with that score
  appear as in the input. The deals are the first \<open>K\<close> ranked records, each with its
  sixteen fields copied, and the alerts are the first ten ranked records, each with its
  seven fields copied, whatever \<open>K\<close> is. Hence the scores of the deals and of the alerts
  never increase, there are \<open>K\<close> deals and ten alerts when the input has that many and
  as many as the input otherwise, and with the default \<open>K\<close> the deals are the first 50
  ranked records.
\<close>

theorem ranker_stable_top_k:
  "\<exists>ranked.
     mset ranked = mset xs
     \<and> sorted_wrt (\<lambda>a b. score b \<le> score a) ranked
     \<and> (\<forall>v. filter (\<lambda>x. score x = v) ranked = filter (\<lambda>x. score x = v) xs)
     \<and> snd (build_outputs xs (int K))
         = map (\<lambda>x. \<lparr>d_listing_id = listing_id (payload x), d_source = source (payload x),
                      d_url = url (payload x), d_title = title (payload x),
                      d_address = address (payload x), d_city = city (payload x),
                      d_price = price (payload x), d_beds = beds (payload x),
                      d_baths = baths (payload x), d_sqft = sqft (payload x),
                      d_bc_assessed_value = bc_assessed_value (payload x),
                      d_dom_days = dom_days x,
                      d_price_drop_30d_ratio = price_drop_30d_ratio x,
                      d_is_relist = is_relist x, d_score = score x, d_reasons = reasons x\<rparr>)
             (take K ranked)
     \<and> fst (build_outputs xs (int K))
         = map (\<lambda>x. \<lparr>a_listing_id = listing_id (payload x), a_title = title (payload x),
                      a_city = city (payload x), a_price = price (payload x),
                      a_url = url (payload x), a_score = score x, a_reasons = reasons x\<rparr>)
             (take 10 ranked)
     \<and> snd (build_outputs xs default_top_k)
         = map (\<lambda>x. \<lparr>d_listing_id = listing_id (payload x), d_source = source (payload x),
                      d_url = url (payload x), d_title = title (payload x),
                      d_address = address (payload x), d_city = city (payload x),
                      d_price = price (payload x), d_beds = beds (payload x),
                      d_baths = baths (payload x), d_sqft = sqft (payload x),
                      d_bc_assessed_value = bc_assessed_value (payload x),
                      d_dom_days = dom_days x,
                      d_price_drop_30d_ratio = price_drop_30d_ratio x,
                      d_is_relist = is_relist x, d_score = score x, d_reasons = reasons x\<rparr>)
             (take 50 ranked)
     \<and> sorted_wrt (\<lambda>a b. d_score b \<le> d_score a) (snd (build_outputs xs (int K)))
     \<and> sorted_wrt (\<lambda>a b. a_score b \<le> a_score a) (fst (build_outputs xs (int K)))
     \<and> length (snd (build_outputs xs (int K))) = min K (length xs)
     \<and> length (fst (build_outputs xs (int K))) = min 10 (length xs)"
proof -
  let ?ranked = "sorted_reverse score xs"
  have perm: "mset ?ranked = mset xs" by (rule mset_sorted_reverse)
  have desc: "sorted_wrt (\<lambda>a b. score b \<le> score a) ?ranked"
    by (rule sorted_reverse_descending)
  have stable: "\<forall>v. filter (\<lambda>x. score x = v) ?ranked = filter (\<lambda>x. score x = v) xs"
    by (simp add: sorted_reverse_stable)
  have len: "length ?ranked = length xs"
    using perm by (metis size_mset)
  have deals: "snd (build_outputs xs (int K)) = map deal_of (take K ?ranked)"
    and alerts: "fst (build_outputs xs (int K)) = map alert_of (take 10 ?ranked)"
    and deals50: "snd (build_outputs xs default_top_k) = map deal_of (take 50 ?ranked)"
    by (simp_all add: build_outputs_def slice_to_def default_top_k_def Let_def)
  have dk: "sorted_wrt (\<lambda>a b. score b \<le> score a) (take K ?ranked)"
    and d10: "sorted_wrt (\<lambda>a b. score b \<le> score a) (take 10 ?ranked)"
    using desc by (simp_all add: sorted_wrt_take)
  have sd: "sorted_wrt (\<lambda>a b. d_score b \<le> d_score a) (snd (build_outputs xs (int K)))"
    using dk by (simp add: deals sorted_wrt_map deal_of_def)
  have sa: "sorted_wrt (\<lambda>a b. a_score b \<le> a_score a) (fst (build_outputs xs (int K)))"
    using d10 by (simp add: alerts sorted_wrt_map alert_of_def)
  have ld: "length (snd (build_outputs xs (int K))) = min K (length xs)"
    by (simp add: deals len min.commute)
  have la: "length (fst (build_outputs xs (int K))) = min 10 (length xs)"
    by (simp add: alerts len min.commute)
  have df: "deal_of = (\<lambda>x. \<lparr>d_listing_id = listing_id (payload x), d_source = source (payload x),
                      d_url = url (payload x), d_title = title (payload x),
                      d_address = address (payload x), d_city = city (payload x),
                      d_price = price (payload x), d_beds = beds (payload x),
                      d_baths = baths (payload x), d_sqft = sqft (payload x),
                      d_bc_assessed_value = bc_assessed_value (payload x),
                      d_dom_days = dom_days x,
                      d_price_drop_30d_ratio = price_drop_30d_ratio x,
                      d_is_relist = is_relist x, d_score = score x, d_reasons = reasons x\<rparr>)"
    by (rule ext) (simp add: deal_of_def)
  have af: "alert_of = (\<lambda>x. \<lparr>a_listing_id = listing_id (payload x), a_title = title (payload x),
                      a_city = city (payload x), a_price = price (payload x),
                      a_url = url (payload x), a_score = score x, a_reasons = reasons x\<rparr>)"
    by (rule ext) (simp add: alert_of_def)
  from perm desc stable deals [unfolded df] alerts [unfolded af] deals50 [unfolded df] sd sa ld la
  show ?thesis by (intro exI [of _ ?ranked] conjI)
qed

section \<open>Properties of the store\<close>

lemma update_rows_simps [simp]:
  "listings_current (update_rows lid f st) =
     map (\<lambda>r. if r_listing_id r = lid then f r else r) (listings_current st)"
  "listing_events (update_rows lid f st) = listing_events st"
  "listing_presence (update_rows lid f st) = listing_presence st"
  by (simp_all add: update_rows_def)

lemma record_event_simps [simp]:
  "listings_current (record_event st lid ty old new t) = listings_current st"
  "listing_events (record_event st lid ty old new t) =
     listing_events st @ [\<lparr>e_listing_id = lid, event_time = iso t, event_type = ty,
                            old_value = py_str old, new_value = py_str new\<rparr>]"
  "listing_presence (record_event st lid ty old new t) = listing_presence st"
  by (simp_all add: record_event_def)

lemma mark_seen_simps [simp]:
  "listings_current (mark_seen st lid t) =
     map (\<lambda>r. if r_listing_id r = lid then r\<lparr>r_last_seen := iso t, r_is_active := True\<rparr> else r)
       (listings_current st)"
  "listing_events (mark_seen st lid t) = listing_events st"
  "listing_presence (mark_seen st lid t) = listing_presence st @ [(lid, iso t)]"
  by (simp_all add: mark_seen_def Let_def)

lemma mark_missing_simps [simp]:
  "listings_current (mark_missing st lid t) =
     map (\<lambda>r. if r_listing_id r = lid then r\<lparr>r_is_active := False, r_last_seen := iso t\<rparr> else r)
       (listings_current st)"
  "listing_events (mark_missing st lid t) =
     listing_events st @ [\<lparr>e_listing_id = lid, event_time = iso t, event_type = ''missing'',
                            old_value = ''None'', new_value = ''missing''\<rparr>]"
  "listing_presence (mark_missing st lid t) = listing_presence st"
  by (simp_all add: mark_missing_def Let_def)

lemma upsert_events [simp]:
  "listing_events (fst (upsert_listing_current lib st l t)) = listing_events st"
  by (simp add: upsert_listing_current_def Let_def split: option.splits)

lemma upsert_presence [simp]:
  "listing_presence (fst (upsert_listing_current lib st l t)) = listing_presence st"
  by (simp add: upsert_listing_current_def Let_def split: option.splits)

lemma upsert_price_changed:
  "price_changed (snd (upsert_listing_current lib st l t)) =
     (case select_row st (listing_id l) of
        None \<Rightarrow> False
      | Some r \<Rightarrow> (\<exists>a b. r_price r = Some a \<and> price l = Some b \<and> a \<noteq> b))"
  by (auto simp: upsert_listing_current_def Let_def split: option.splits)

lemma upsert_old_price:
  "old_price (snd (upsert_listing_current lib st l t)) =
     (case select_row st (listing_id l) of None \<Rightarrow> None | Some r \<Rightarrow> r_price r)"
  by (auto simp: upsert_listing_current_def Let_def split: option.splits)

lemma enrich_one_events:
  "listing_events (fst (enrich_one lib s clock now l (st, out, seen))) =
     listing_events st @
       (if price_changed (snd (upsert_listing_current lib st (l\<lparr>signature := Some (signature_for lib l)\<rparr>) now))
        then [\<lparr>e_listing_id = listing_id l, event_time = iso now, event_type = ''price_change'',
               old_value = py_str (opt_val (old_price (snd (upsert_listing_current lib st
                              (l\<lparr>signature := Some (signature_for lib l)\<rparr>) now)))),
               new_value = py_str (opt_val (price l))\<rparr>]
        else [])"
  by (simp add: enrich_one_def Let_def split_beta)

text \<open>
  C10. When the listing id is already stored, the upsert reports a price change exactly
  when the stored price and the price of the snapshot are both present and differ. The
  pipeline step appends one \<open>price_change\<close> event in that case and no event otherwise;
  in particular, when either price is absent no price change is reported and no event
  is appended.
\<close>

theorem price_change_needs_both:
  assumes "select_row st (listing_id l) = Some r"
  shows "price_changed (snd (upsert_listing_current lib st l t))
           = (\<exists>a b. r_price r = Some a \<and> price l = Some b \<and> a \<noteq> b)
         \<and> listing_events (fst (enrich_one lib s clock now l (st, out, seen))) =
             listing_events st @
               (if \<exists>a b. r_price r = Some a \<and> price l = Some b \<and> a \<noteq> b
                then [\<lparr>e_listing_id = listing_id l, event_time = iso now,
                       event_type = ''price_change'',
                       old_value = py_str (opt_val (r_price r)),
                       new_value = py_str (opt_val (price l))\<rparr>]
                else [])
         \<and> (r_price r = None \<or> price l = None \<longrightarrow>
              \<not> price_changed (snd (upsert_listing_current lib st l t))
              \<and> listing_events (fst (enrich_one lib s clock now l (st, out, seen)))
                  = listing_events st)"
  using assms
  by (auto simp: upsert_price_changed upsert_old_price enrich_one_events)

theorem price_change_needs_both_witness:
  "select_row (store_of [row_with ''a'' None ''s'' True 0 0] []) (listing_id (listing_with ''a'' (Some 100) None))
     = Some (row_with ''a'' None ''s'' True 0 0)
   \<and> r_price (row_with ''a'' None ''s'' True 0 0) = None
   \<and> \<not> price_changed (snd (upsert_listing_current plain_lib
          (store_of [row_with ''a'' None ''s'' True 0 0] []) (listing_with ''a'' (Some 100) None) 5000000))
   \<and> listing_events (fst (enrich_one plain_lib \<lparr>signals = None\<rparr> 5000000 5000000
          (listing_with ''a'' (Some 100) None)
          (store_of [row_with ''a'' None ''s'' True 0 0] [], [], {}))) = []"
proof -
  have sel: "select_row (store_of [row_with ''a'' None ''s'' True 0 0] [])
               (listing_id (listing_with ''a'' (Some 100) None))
             = Some (row_with ''a'' None ''s'' True 0 0)"
    by (simp add: select_row_def store_of_def row_with_def listing_with_def)
  have p: "r_price (row_with ''a'' None ''s'' True 0 0) = None"
    by (simp add: row_with_def)
  have e: "listing_events (store_of [row_with ''a'' None ''s'' True 0 0] []) = []"
    by (simp add: store_of_def)
  from price_change_needs_both [OF sel, of plain_lib 5000000 "\<lparr>signals = None\<rparr>" 5000000 5000000 "[]" "{}"]
    sel p e
  show ?thesis by simp
qed


lemma select_row_None: "select_row st lid = None \<longleftrightarrow> (\<forall>r \<in> set (listings_current st). r_listing_id r \<noteq> lid)"
  by (auto simp: select_row_def find_None_iff)

lemma select_row_Some_id: "select_row st lid = Some r \<Longrightarrow> r_listing_id r = lid \<and> r \<in> set (listings_current st)"
  by (auto simp: select_row_def find_Some_iff)

lemma find_map_update:
  assumes "\<And>r. k (f r) = k r"
  shows "find (\<lambda>r. k r = lid) (map (\<lambda>r. if k r = lid then f r else r) rows)
         = map_option f (find (\<lambda>r. k r = lid) rows)"
  using assms by (induction rows) auto

lemma find_map_update_other:
  assumes "\<And>r. k (f r) = k r" "lid' \<noteq> lid"
  shows "find (\<lambda>r. k r = lid') (map (\<lambda>r. if k r = lid then f r else r) rows)
         = find (\<lambda>r. k r = lid') rows"
  using assms by (induction rows) auto

lemma find_append_None:
  "find P xs = None \<Longrightarrow> find P (xs @ ys) = find P ys"
  by (induction xs) (auto split: if_splits)

lemma upsert_insert_row:
  assumes "select_row st (listing_id l) = None"
  shows "map_option (\<lambda>r. (r_first_seen r, r_last_seen r))
           (select_row (fst (upsert_listing_current lib st l t)) (listing_id l)) = Some (iso t, iso t)"
proof -
  have "find (\<lambda>r. r_listing_id r = listing_id l) (listings_current st) = None"
    using assms by (simp add: select_row_def)
  then show ?thesis using assms
    by (simp add: upsert_listing_current_def Let_def select_row_def find_append_None)
qed

lemma upsert_update_row:
  assumes "select_row st (listing_id l) = Some r"
  shows "map_option (\<lambda>r. (r_first_seen r, r_last_seen r))
           (select_row (fst (upsert_listing_current lib st l t)) (listing_id l))
         = Some (r_first_seen r, iso t)"
  using assms
  by (simp add: upsert_listing_current_def Let_def select_row_def find_map_update)

lemma seen_ordered_update:
  assumes "seen_ordered st"
    and "\<And>r. r \<in> set (listings_current st) \<Longrightarrow> r_listing_id r = lid \<Longrightarrow>
            r_first_seen (f r) \<le> r_last_seen (f r)"
  shows "seen_ordered (update_rows lid f st)"
  using assms by (auto simp: seen_ordered_def list_all_iff)

lemma seen_ordered_cong:
  "listings_current st' = listings_current st \<Longrightarrow> seen_ordered st' = seen_ordered st"
  by (simp add: seen_ordered_def)

text \<open>
  C9, amended. A first insert stores \<open>first_seen = last_seen\<close>, the time of the
  observation cut to whole seconds. An upsert of a stored id keeps \<open>first_seen\<close> and
  sets \<open>last_seen\<close> to the time of the observation cut to whole seconds. If no row is
  first seen after it is last seen, and the time of the mutation, cut to whole seconds, is
  not before \<open>first_seen\<close> of the rows of the id, then the same holds after the upsert,
  after \<open>mark_seen\<close> and after \<open>mark_missing\<close>.
\<close>

theorem seen_order:
  "(select_row st (listing_id l) = None \<longrightarrow>
      map_option (\<lambda>r. (r_first_seen r, r_last_seen r))
        (select_row (fst (upsert_listing_current lib st l t)) (listing_id l)) = Some (iso t, iso t))
   \<and> (select_row st (listing_id l) = Some r \<longrightarrow>
      map_option (\<lambda>r. (r_first_seen r, r_last_seen r))
        (select_row (fst (upsert_listing_current lib st l t)) (listing_id l))
        = Some (r_first_seen r, iso t))
   \<and> (seen_ordered st
       \<and> (\<forall>x \<in> set (listings_current st). r_listing_id x = listing_id l \<longrightarrow> r_first_seen x \<le> iso t)
      \<longrightarrow> seen_ordered (fst (upsert_listing_current lib st l t))
          \<and> seen_ordered (mark_seen st (listing_id l) t)
          \<and> seen_ordered (mark_missing st (listing_id l) t))"
proof (intro conjI impI)
  assume "select_row st (listing_id l) = None"
  then show "map_option (\<lambda>r. (r_first_seen r, r_last_seen r))
        (select_row (fst (upsert_listing_current lib st l t)) (listing_id l)) = Some (iso t, iso t)"
    by (rule upsert_insert_row)
next
  assume "select_row st (listing_id l) = Some r"
  then show "map_option (\<lambda>r. (r_first_seen r, r_last_seen r))
        (select_row (fst (upsert_listing_current lib st l t)) (listing_id l))
        = Some (r_first_seen r, iso t)"
    by (rule upsert_update_row)
next
  assume a: "seen_ordered st
       \<and> (\<forall>x \<in> set (listings_current st). r_listing_id x = listing_id l \<longrightarrow> r_first_seen x \<le> iso t)"
  show "seen_ordered (fst (upsert_listing_current lib st l t))"
  proof (cases "select_row st (listing_id l)")
    case None
    then show ?thesis using a
      by (simp add: upsert_listing_current_def Let_def seen_ordered_def)
  next
    case (Some r)
    then show ?thesis using a
      by (simp add: upsert_listing_current_def Let_def seen_ordered_update)
  qed
next
  assume a: "seen_ordered st
       \<and> (\<forall>x \<in> set (listings_current st). r_listing_id x = listing_id l \<longrightarrow> r_first_seen x \<le> iso t)"
  then show "seen_ordered (mark_seen st (listing_id l) t)"
    by (auto simp: seen_ordered_def list_all_iff)
next
  assume a: "seen_ordered st
       \<and> (\<forall>x \<in> set (listings_current st). r_listing_id x = listing_id l \<longrightarrow> r_first_seen x \<le> iso t)"
  then have "seen_ordered (update_rows (listing_id l)
               (\<lambda>r. r\<lparr>r_is_active := False, r_last_seen := iso t\<rparr>) st)"
    by (simp add: seen_ordered_update)
  then show "seen_ordered (mark_missing st (listing_id l) t)"
    by (simp add: seen_ordered_def)
qed


lemma iso_whole: "iso 1000000 = 1000000" "iso 2000000 = 2000000"
  by (simp_all add: iso_def second_us_def)

theorem seen_order_witness:
  "select_row (store_of [] []) (listing_id (listing_with ''a'' (Some 100) None)) = None
   \<and> map_option (\<lambda>r. (r_first_seen r, r_last_seen r))
        (select_row (fst (upsert_listing_current plain_lib (store_of [] [])
           (listing_with ''a'' (Some 100) None) 1000000)) (listing_id (listing_with ''a'' (Some 100) None)))
       = Some (1000000, 1000000)
   \<and> select_row (store_of [row_with ''a'' (Some 100) ''s'' True 1000000 1000000] [])
        (listing_id (listing_with ''a'' (Some 90) None))
       = Some (row_with ''a'' (Some 100) ''s'' True 1000000 1000000)
   \<and> map_option (\<lambda>r. (r_first_seen r, r_last_seen r))
        (select_row (fst (upsert_listing_current plain_lib
           (store_of [row_with ''a'' (Some 100) ''s'' True 1000000 1000000] [])
           (listing_with ''a'' (Some 90) None) 2000000)) (listing_id (listing_with ''a'' (Some 90) None)))
       = Some (1000000, 2000000)
   \<and> seen_ordered (store_of [row_with ''a'' (Some 100) ''s'' True 1000000 1000000] [])
   \<and> list_all (\<lambda>x. r_first_seen x \<le> iso 2000000)
         (listings_current (store_of [row_with ''a'' (Some 100) ''s'' True 1000000 1000000] []))
   \<and> seen_ordered (fst (upsert_listing_current plain_lib
           (store_of [row_with ''a'' (Some 100) ''s'' True 1000000 1000000] [])
           (listing_with ''a'' (Some 90) None) 2000000))
   \<and> seen_ordered (mark_seen (store_of [row_with ''a'' (Some 100) ''s'' True 1000000 1000000] [])
        (listing_id (listing_with ''a'' (Some 90) None)) 2000000)
   \<and> seen_ordered (mark_missing (store_of [row_with ''a'' (Some 100) ''s'' True 1000000 1000000] [])
        (listing_id (listing_with ''a'' (Some 90) None)) 2000000)"
proof -
  let ?st = "store_of [row_with ''a'' (Some 100) ''s'' True 1000000 1000000] []"
  let ?r = "row_with ''a'' (Some 100) ''s'' True 1000000 1000000"
  have n: "select_row (store_of [] []) (listing_id (listing_with ''a'' (Some 100) None)) = None"
    by (simp add: select_row_def store_of_def)
  have u: "select_row ?st (listing_id (listing_with ''a'' (Some 90) None)) = Some ?r"
    by (simp add: select_row_def store_of_def row_with_def listing_with_def)
  have o: "seen_ordered ?st"
    by (simp add: seen_ordered_def store_of_def row_with_def)
  have b: "\<forall>x \<in> set (listings_current ?st).
        r_listing_id x = listing_id (listing_with ''a'' (Some 90) None) \<longrightarrow> r_first_seen x \<le> iso 2000000"
    by (simp add: store_of_def row_with_def iso_whole)
  have f: "r_first_seen ?r = 1000000"
    by (simp add: row_with_def)
  have a: "list_all (\<lambda>x. r_first_seen x \<le> iso 2000000) (listings_current ?st)"
    by (simp add: store_of_def row_with_def iso_whole)
  from seen_order [of "store_of [] []" "listing_with ''a'' (Some 100) None" plain_lib 1000000 ?r]
    seen_order [of ?st "listing_with ''a'' (Some 90) None" plain_lib 2000000 ?r]
    n u o b f a
  show ?thesis by (simp add: iso_whole)
qed

text \<open>
  C9 as stated fails when a mutation carries an earlier time than the insert: the row
  inserted at second 2 and upserted at second 1 has \<open>first_seen\<close> after \<open>last_seen\<close>.
\<close>

theorem seen_order_counterexample:
  "map (\<lambda>r. (r_first_seen r, r_last_seen r))
     (listings_current (fst (upsert_listing_current plain_lib
        (fst (upsert_listing_current plain_lib (store_of [] [])
           (listing_with ''a'' (Some 100) None) 2000000))
        (listing_with ''a'' (Some 100) None) 1000000)))
   = [(2000000, 1000000)]
   \<and> \<not> seen_ordered (fst (upsert_listing_current plain_lib
        (fst (upsert_listing_current plain_lib (store_of [] [])
           (listing_with ''a'' (Some 100) None) 2000000))
        (listing_with ''a'' (Some 100) None) 1000000))"
  by (simp add: upsert_listing_current_def select_row_def store_of_def listing_with_def
      Let_def iso_whole update_rows_def seen_ordered_def)


section \<open>Properties of the price-drop ratio\<close>

lemma expo_up_numeral [simp]:
  "expo_up (numeral k) x = (if x < 2 then 0 else 1 + expo_up (pred_numeral k) (x / 2))"
  by (simp add: numeral_eq_Suc)

lemma expo_down_numeral [simp]:
  "expo_down (numeral k) x = (if 1 \<le> x then 0 else expo_down (pred_numeral k) (2 * x) - 1)"
  by (simp add: numeral_eq_Suc)

text \<open>The doubles of the examples.\<close>

lemma double_examples:
  "to_double 500 = Num 500"
  "to_double 1000 = Num 1000"
  "to_double (1 / 2) = Num (1 / 2)"
  "to_double 500000 = Num 500000"
  "to_double 750000 = Num 750000"
  "to_double 99995 = Num 99995"
  "to_double 100000 = Num 100000"
  "to_double 5 = Num 5"
  "to_double 0 = Num 0"
  by (simp_all add: to_double_def expo_def pow2_def round_half_even_def)

lemma double_twenty_thousandth:
  "to_double (1 / 20000) = Num (7378697629483821 / 147573952589676412928)"
  by (simp add: to_double_def expo_def pow2_def round_half_even_def)

lemma round_twenty_thousandth:
  "py_round (7378697629483821 / 147573952589676412928) 4 = 1 / 10000"
  by (simp add: py_round_def round_half_even_def)

lemma double_ten_thousandth:
  "to_double (1 / 10000) = Num (7378697629483821 / 73786976294838206464)"
  by (simp add: to_double_def expo_def pow2_def round_half_even_def)

lemma py_round_half: "py_round (1 / 2) 4 = 1 / 2"
  by (simp add: py_round_def round_half_even_def)

lemma example_times:
  "iso (86400000000 - 30 * day_us) = - 2505600000000"
  by (simp add: iso_def day_us_def second_us_def)

lemma float_of_plain [simp]: "float_of plain_lib = float_of_decimal"
  by (simp add: plain_lib_def)

lemma float_examples:
  "float_of_decimal ''1000'' = Some (Num 1000)"
  "float_of_decimal ''750000'' = Some (Num 750000)"
  "float_of_decimal ''100000'' = Some (Num 100000)"
  "float_of_decimal ''99995'' = Some (Num 99995)"
  "float_of_decimal ''None'' = None"
  "float_of_decimal ''n/a'' = None"
  "float_of_decimal ''inf'' = Some PosInf"
  by (simp_all add: float_of_decimal_def digit_of_def double_examples)

lemma example_history:
  "get_listing_history 86400000000 (store_of rows [event_of ''a'' 0 ''price_change'' old new])
     ''a'' 30 = [event_of ''a'' 0 ''price_change'' old new]"
  by (simp add: get_listing_history_def example_times store_of_def event_of_def)

lemma example_row:
  "select_row (store_of [row_with ''a'' p ''s'' True 0 0] evs) ''a''
     = Some (row_with ''a'' p ''s'' True 0 0)"
  "or_zero (r_price (row_with ''a'' (Some n) ''s'' True 0 0)) = n"
  by (simp_all add: select_row_def store_of_def row_with_def or_zero_def)

lemma example_window:
  "filter (\<lambda>e. e_listing_id e = ''a'' \<and> 86400000000 - 30 * day_us \<le> event_time e)
     (listing_events (store_of rows [event_of ''a'' 0 ''price_change'' old new]))
   = [event_of ''a'' 0 ''price_change'' old new]"
  by (simp add: store_of_def event_of_def day_us_def second_us_def)

lemma collect_examples:
  "collect_prices float_of_decimal [event_of ''a'' 0 ''price_change'' ''None'' ''1000''] = []"
  "collect_prices float_of_decimal [event_of ''a'' 0 ''price_change'' ''1000'' ''None'']
     = [Num 1000]"
  "collect_prices float_of_decimal [event_of ''a'' 0 ''price_change'' ''n/a'' ''750000''] = []"
  "collect_prices float_of_decimal [event_of ''a'' 0 ''price_change'' ''750000'' ''n/a'']
     = [Num 750000]"
  "collect_prices float_of_decimal [event_of ''a'' 0 ''price_change'' ''100000'' ''99995'']
     = [Num 100000, Num 99995]"
  "collect_prices float_of_decimal [event_of ''a'' 0 ''price_change'' ''1000'' ''inf'']
     = [Num 1000, PosInf]"
  by (simp_all add: event_of_def float_examples)

lemma spec_collect_examples:
  "spec_collect_prices float_of_decimal [event_of ''a'' 0 ''price_change'' ''None'' ''1000'']
     = [Num 1000]"
  "spec_collect_prices float_of_decimal [event_of ''a'' 0 ''price_change'' ''n/a'' ''750000'']
     = [Num 750000]"
  by (simp_all add: spec_collect_prices_def numeric_values_def event_of_def float_examples)

lemma drop_malformed_old:
  "compute_price_drop_30d plain_lib 86400000000
     (store_of [row_with ''a'' (Some 500) ''s'' True 0 0]
        [event_of ''a'' 0 ''price_change'' ''None'' ''1000'']) ''a'' 86400000000 = Num 0"
  unfolding compute_price_drop_30d_def Let_def example_row example_history float_of_plain
    collect_examples
  by (simp add: example_row float_int_def py_max_def double_examples py_round_def round_half_even_def)

lemma drop_malformed_new:
  "compute_price_drop_30d plain_lib 86400000000
     (store_of [row_with ''a'' (Some 500) ''s'' True 0 0]
        [event_of ''a'' 0 ''price_change'' ''1000'' ''None'']) ''a'' 86400000000 = Num (1 / 2)"
  unfolding compute_price_drop_30d_def Let_def example_row example_history float_of_plain
    collect_examples
  by (simp add: example_row float_int_def py_max_def double_examples py_round_half)

lemma spec_drop_malformed_old:
  "spec_price_drop_30d plain_lib
     (store_of [row_with ''a'' (Some 500) ''s'' True 0 0]
        [event_of ''a'' 0 ''price_change'' ''None'' ''1000'']) ''a'' 86400000000 = Num (1 / 2)"
  unfolding spec_price_drop_30d_def Let_def example_row example_window float_of_plain
    spec_collect_examples
  by (simp add: example_row float_int_def py_max_def double_examples py_round_half)

text \<open>
  Two further values: the drop from 100000 to 99995 is the double next to 0.00005, which
  lies above it and so rounds to 0.0001 at four places; an event text that \<open>float\<close>
  reads as an infinity makes the ratio \<open>nan\<close>.
\<close>

lemma drop_rounds_up:
  "compute_price_drop_30d plain_lib 86400000000
     (store_of [row_with ''a'' (Some 99995) ''s'' True 0 0]
        [event_of ''a'' 0 ''price_change'' ''100000'' ''99995'']) ''a'' 86400000000
   = Num (7378697629483821 / 73786976294838206464)"
  unfolding compute_price_drop_30d_def Let_def example_row example_history float_of_plain
    collect_examples
  by (simp add: example_row float_int_def py_max_def double_examples double_twenty_thousandth
      round_twenty_thousandth double_ten_thousandth)

lemma drop_not_a_number:
  "compute_price_drop_30d plain_lib 86400000000
     (store_of [row_with ''a'' (Some 500) ''s'' True 0 0]
        [event_of ''a'' 0 ''price_change'' ''1000'' ''inf'']) ''a'' 86400000000 = NaN"
  unfolding compute_price_drop_30d_def Let_def example_row example_history float_of_plain
    collect_examples
  by (simp add: example_row float_int_def py_max_def double_examples)

lemma drop_malformed_old_b:
  "compute_price_drop_30d plain_lib 86400000000
     (store_of [row_with ''a'' (Some 500000) ''s'' True 0 0]
        [event_of ''a'' 0 ''price_change'' ''n/a'' ''750000'']) ''a'' 86400000000 = Num 0"
  unfolding compute_price_drop_30d_def Let_def example_row example_history float_of_plain
    collect_examples
  by (simp add: example_row float_int_def py_max_def double_examples py_round_def
      round_half_even_def)


text \<open>
  C3 at an event with a malformed old value. The stored price is 500 and the one
  \<open>price_change\<close> event of the last 30 days has the old value \<open>None\<close> and the new
  value \<open>1000\<close>. The new value is numeric, so the ratio of the specification is
  (1000 - 500) / 1000 = 0.5; \<open>compute_price_drop_30d\<close> leaves the whole event and returns
  0. With the two values exchanged (a malformed new value) it keeps the numeric value
  and returns 0.5.
\<close>

theorem price_drop_30d_malformed_old:
  "compute_price_drop_30d plain_lib 86400000000
     (store_of [row_with ''a'' (Some 500) ''s'' True 0 0]
        [event_of ''a'' 0 ''price_change'' ''None'' ''1000'']) ''a'' 86400000000 = Num 0
   \<and> spec_price_drop_30d plain_lib
     (store_of [row_with ''a'' (Some 500) ''s'' True 0 0]
        [event_of ''a'' 0 ''price_change'' ''None'' ''1000'']) ''a'' 86400000000 = Num (1 / 2)
   \<and> compute_price_drop_30d plain_lib 86400000000
     (store_of [row_with ''a'' (Some 500) ''s'' True 0 0]
        [event_of ''a'' 0 ''price_change'' ''1000'' ''None'']) ''a'' 86400000000 = Num (1 / 2)"
  using drop_malformed_old spec_drop_malformed_old drop_malformed_new by blast

text \<open>
  C8 at an event with the malformed old value \<open>n/a\<close> and the new value \<open>750000\<close>:
  skipping the malformed value by itself keeps 750000, the loop of
  \<open>compute_price_drop_30d\<close> keeps nothing of the event, and for the stored price 500000
  the ratio is 0. With the two values exchanged the loop keeps 750000.
\<close>

theorem graceful_degradation_malformed_old:
  "collect_prices (float_of plain_lib) [event_of ''a'' 0 ''price_change'' ''n/a'' ''750000''] = []
   \<and> spec_collect_prices (float_of plain_lib)
         [event_of ''a'' 0 ''price_change'' ''n/a'' ''750000''] = [Num 750000]
   \<and> collect_prices (float_of plain_lib) [event_of ''a'' 0 ''price_change'' ''750000'' ''n/a'']
       = [Num 750000]
   \<and> compute_price_drop_30d plain_lib 86400000000
        (store_of [row_with ''a'' (Some 500000) ''s'' True 0 0]
           [event_of ''a'' 0 ''price_change'' ''n/a'' ''750000'']) ''a'' 86400000000 = Num 0"
  using collect_examples(3,4) spec_collect_examples(2) drop_malformed_old_b by simp


section \<open>Properties of relist detection\<close>

lemma latest_by_None: "latest_by k xs = None \<longleftrightarrow> xs = []"
  by (induction xs) (auto split: option.split)

lemma latest_by_Some:
  "latest_by k xs = Some x \<Longrightarrow> x \<in> set xs \<and> (\<forall>y \<in> set xs. k y \<le> k x)"
proof (induction xs arbitrary: x)
  case Nil
  then show ?case by simp
next
  case (Cons a xs)
  show ?case
  proof (cases "latest_by k xs")
    case None
    then have "xs = []" by (simp add: latest_by_None)
    with Cons.prems None show ?thesis by simp
  next
    case (Some y)
    from Cons.IH [OF Some] have y: "y \<in> set xs" "\<forall>z \<in> set xs. k z \<le> k y" by simp_all
    show ?thesis
    proof (cases "k y \<le> k a")
      case True
      with Cons.prems Some have "x = a" by simp
      with True y show ?thesis by fastforce
    next
      case False
      with Cons.prems Some have "x = y" by simp
      with False y show ?thesis by fastforce
    qed
  qed
qed

lemma latest_by_age:
  "(case latest_by event_time ms of None \<Rightarrow> False | Some e \<Rightarrow> 7 \<le> days_between now (event_time e))
   \<longleftrightarrow> list_ex (\<lambda>e. list_all (\<lambda>e'. event_time e' \<le> event_time e) ms
                     \<and> 7 \<le> days_between now (event_time e)) ms"
proof (cases "latest_by event_time ms")
  case None
  then have "ms = []" by (simp add: latest_by_None)
  with None show ?thesis by simp
next
  case (Some e)
  from latest_by_Some [OF Some]
  have e: "e \<in> set ms" "\<forall>y \<in> set ms. event_time y \<le> event_time e" by simp_all
  have "7 \<le> days_between now (event_time e)
        \<longleftrightarrow> (\<exists>x \<in> set ms. (\<forall>y \<in> set ms. event_time y \<le> event_time x)
                  \<and> 7 \<le> days_between now (event_time x))"
  proof
    assume "7 \<le> days_between now (event_time e)"
    with e show "\<exists>x \<in> set ms. (\<forall>y \<in> set ms. event_time y \<le> event_time x)
                  \<and> 7 \<le> days_between now (event_time x)" by blast
  next
    assume "\<exists>x \<in> set ms. (\<forall>y \<in> set ms. event_time y \<le> event_time x)
                  \<and> 7 \<le> days_between now (event_time x)"
    then obtain x where x: "x \<in> set ms" "\<forall>y \<in> set ms. event_time y \<le> event_time x"
      "7 \<le> days_between now (event_time x)" by blast
    from x(1) e(2) have "event_time x \<le> event_time e" by blast
    moreover from e(1) x(2) have "event_time e \<le> event_time x" by blast
    ultimately have "event_time x = event_time e" by simp
    with x(3) show "7 \<le> days_between now (event_time e)" by simp
  qed
  with Some show ?thesis by (simp add: list_ex_iff list_all_iff)
qed

lemma detect_relist_eq:
  assumes "select_row st lid = Some r" "r_signature r \<noteq> []"
  shows "detect_relist st lid now \<longleftrightarrow>
           last_missing_old st lid now
           \<or> (case latest_by r_last_seen (same_signature_others st lid) of
                 None \<Rightarrow> False | Some x \<Rightarrow> \<not> r_is_active x)"
proof -
  have "detect_relist st lid now \<longleftrightarrow>
          (case latest_by event_time (missing_events st lid) of
             None \<Rightarrow> False | Some e \<Rightarrow> 7 \<le> days_between now (event_time e))
          \<or> (case latest_by r_last_seen (same_signature_others st lid) of
                 None \<Rightarrow> False | Some x \<Rightarrow> \<not> r_is_active x)"
    using assms
    by (simp add: detect_relist_def Let_def missing_events_def same_signature_others_def
        split: option.split)
  then show ?thesis
    by (simp only: latest_by_age last_missing_old_def)
qed

lemma latest_others_set:
  "x \<in> set (latest_others st lid) \<longleftrightarrow>
     x \<in> set (same_signature_others st lid)
     \<and> (\<forall>y \<in> set (same_signature_others st lid). r_last_seen y \<le> r_last_seen x)"
  by (simp add: latest_others_def list_all_iff)

lemma latest_by_in_latest_others:
  assumes "latest_by r_last_seen (same_signature_others st lid) = Some x"
  shows "x \<in> set (latest_others st lid)"
  using latest_by_Some [OF assms] by (simp add: latest_others_set)

lemma latest_others_empty:
  "latest_others st lid = [] \<longleftrightarrow> same_signature_others st lid = []"
proof
  assume "same_signature_others st lid = []"
  then show "latest_others st lid = []" by (simp add: latest_others_def)
next
  assume e: "latest_others st lid = []"
  show "same_signature_others st lid = []"
  proof (cases "latest_by r_last_seen (same_signature_others st lid)")
    case None
    then show ?thesis by (simp add: latest_by_None)
  next
    case (Some x)
    from latest_by_in_latest_others [OF Some] e show ?thesis by simp
  qed
qed

text \<open>
  C1, amended. For an id with a stored row and a non-empty signature, relist detection
  looks at the other rows with the same signature that were seen last (greatest
  \<open>last_seen\<close>), not at every other row: if it answers true, the most recent
  \<open>missing\<close> event of the id is at least 7 days old or one of those rows is inactive;
  it answers true when the most recent \<open>missing\<close> event is at least 7 days old,
  whether or not another id shares the signature; it answers true when there are such
  rows and all of them are inactive, however recently they were seen; it answers false
  when the first clause fails and all of those rows are active.
\<close>

theorem relist_detection:
  assumes "select_row st lid = Some r" "r_signature r \<noteq> []"
  shows "(detect_relist st lid now \<longrightarrow>
            last_missing_old st lid now
            \<or> list_ex (\<lambda>x. \<not> r_is_active x) (latest_others st lid))
         \<and> (last_missing_old st lid now \<longrightarrow> detect_relist st lid now)
         \<and> (latest_others st lid \<noteq> [] \<and> list_all (\<lambda>x. \<not> r_is_active x) (latest_others st lid)
              \<longrightarrow> detect_relist st lid now)
         \<and> (\<not> last_missing_old st lid now \<and> list_all r_is_active (latest_others st lid)
              \<longrightarrow> \<not> detect_relist st lid now)"
proof -
  note eq = detect_relist_eq [OF assms, of now]
  have one: "last_missing_old st lid now
            \<or> list_ex (\<lambda>x. \<not> r_is_active x) (latest_others st lid)"
    if d: "detect_relist st lid now"
  proof (cases "last_missing_old st lid now")
    case True
    then show ?thesis by simp
  next
    case False
    with d eq obtain x where x: "latest_by r_last_seen (same_signature_others st lid) = Some x"
      and "\<not> r_is_active x"
      by (auto split: option.splits)
    with latest_by_in_latest_others [OF x] show ?thesis
      by (auto simp: list_ex_iff)
  qed
  have two: "detect_relist st lid now" if "last_missing_old st lid now"
    using that eq by simp
  have three: "detect_relist st lid now"
    if "latest_others st lid \<noteq> [] \<and> list_all (\<lambda>x. \<not> r_is_active x) (latest_others st lid)"
  proof -
    from that have "same_signature_others st lid \<noteq> []" by (simp add: latest_others_empty)
    then obtain x where x: "latest_by r_last_seen (same_signature_others st lid) = Some x"
      by (cases "latest_by r_last_seen (same_signature_others st lid)") (simp_all add: latest_by_None)
    from latest_by_in_latest_others [OF x] that have "\<not> r_is_active x"
      by (simp add: list_all_iff)
    with x eq show ?thesis by simp
  qed
  have four: "\<not> detect_relist st lid now"
    if "\<not> last_missing_old st lid now \<and> list_all r_is_active (latest_others st lid)"
  proof
    assume "detect_relist st lid now"
    from one [OF this] that show False
      by (auto simp: list_ex_iff list_all_iff)
  qed
  from one two three four show ?thesis by blast
qed

theorem relist_detection_witness:
  "select_row (store_of [row_with ''a'' (Some 1) ''s'' True 0 0]
                 [event_of ''a'' 0 ''missing'' ''None'' ''missing'']) ''a''
     = Some (row_with ''a'' (Some 1) ''s'' True 0 0)
   \<and> r_signature (row_with ''a'' (Some 1) ''s'' True 0 0) \<noteq> []
   \<and> last_missing_old (store_of [row_with ''a'' (Some 1) ''s'' True 0 0]
                 [event_of ''a'' 0 ''missing'' ''None'' ''missing'']) ''a'' 691200000000
   \<and> same_signature_others (store_of [row_with ''a'' (Some 1) ''s'' True 0 0]
                 [event_of ''a'' 0 ''missing'' ''None'' ''missing'']) ''a'' = []
   \<and> detect_relist (store_of [row_with ''a'' (Some 1) ''s'' True 0 0]
                 [event_of ''a'' 0 ''missing'' ''None'' ''missing'']) ''a'' 691200000000
   \<and> select_row (store_of [row_with ''a'' (Some 1) ''s'' True 0 0,
                            row_with ''c'' (Some 1) ''s'' False 0 100000000] []) ''a''
     = Some (row_with ''a'' (Some 1) ''s'' True 0 0)
   \<and> latest_others (store_of [row_with ''a'' (Some 1) ''s'' True 0 0,
                            row_with ''c'' (Some 1) ''s'' False 0 100000000] []) ''a''
     = [row_with ''c'' (Some 1) ''s'' False 0 100000000]
   \<and> detect_relist (store_of [row_with ''a'' (Some 1) ''s'' True 0 0,
                            row_with ''c'' (Some 1) ''s'' False 0 100000000] []) ''a'' 691200000000
   \<and> select_row (store_of [row_with ''a'' (Some 1) ''s'' True 0 0,
                            row_with ''b'' (Some 1) ''s'' True 0 200000000] []) ''a''
     = Some (row_with ''a'' (Some 1) ''s'' True 0 0)
   \<and> \<not> last_missing_old (store_of [row_with ''a'' (Some 1) ''s'' True 0 0,
                            row_with ''b'' (Some 1) ''s'' True 0 200000000] []) ''a'' 691200000000
   \<and> latest_others (store_of [row_with ''a'' (Some 1) ''s'' True 0 0,
                            row_with ''b'' (Some 1) ''s'' True 0 200000000] []) ''a''
     = [row_with ''b'' (Some 1) ''s'' True 0 200000000]
   \<and> \<not> detect_relist (store_of [row_with ''a'' (Some 1) ''s'' True 0 0,
                            row_with ''b'' (Some 1) ''s'' True 0 200000000] []) ''a'' 691200000000"
proof -
  let ?a = "row_with ''a'' (Some 1) ''s'' True 0 0"
  let ?b = "row_with ''b'' (Some 1) ''s'' True 0 200000000"
  let ?c = "row_with ''c'' (Some 1) ''s'' False 0 100000000"
  let ?aged = "store_of [?a] [event_of ''a'' 0 ''missing'' ''None'' ''missing'']"
  let ?gone = "store_of [?a, ?c] []"
  let ?live = "store_of [?a, ?b] []"
  have sig: "r_signature ?a \<noteq> []"
    by (simp add: row_with_def)
  have s1: "select_row ?aged ''a'' = Some ?a"
    and s2: "select_row ?gone ''a'' = Some ?a"
    and s3: "select_row ?live ''a'' = Some ?a"
    by (simp_all add: select_row_def store_of_def row_with_def)
  have m1: "last_missing_old ?aged ''a'' 691200000000"
    by (simp add: last_missing_old_def missing_events_def store_of_def event_of_def
        days_between_def day_us_def second_us_def)
  have o1: "same_signature_others ?aged ''a'' = []"
    by (simp add: same_signature_others_def s1) (simp add: store_of_def row_with_def)
  have o2: "latest_others ?gone ''a'' = [?c]"
    by (simp add: latest_others_def same_signature_others_def s2)
      (simp add: store_of_def row_with_def)
  have o3: "latest_others ?live ''a'' = [?b]"
    by (simp add: latest_others_def same_signature_others_def s3)
      (simp add: store_of_def row_with_def)
  have m3: "\<not> last_missing_old ?live ''a'' 691200000000"
    by (simp add: last_missing_old_def missing_events_def store_of_def)
  have i2: "latest_others ?gone ''a'' \<noteq> [] \<and> list_all (\<lambda>x. \<not> r_is_active x) (latest_others ?gone ''a'')"
    unfolding o2 by (simp add: row_with_def)
  have i3: "\<not> last_missing_old ?live ''a'' 691200000000 \<and> list_all r_is_active (latest_others ?live ''a'')"
    unfolding o3 using m3 by (simp add: row_with_def)
  from relist_detection [OF s1 sig, of 691200000000] m1
  have d1: "detect_relist ?aged ''a'' 691200000000" by blast
  from relist_detection [OF s2 sig, of 691200000000] i2
  have d2: "detect_relist ?gone ''a'' 691200000000" by blast
  from relist_detection [OF s3 sig, of 691200000000] i3
  have d3: "\<not> detect_relist ?live ''a'' 691200000000" by blast
  from s1 sig m1 o1 d1 s2 o2 d2 s3 m3 o3 d3 show ?thesis by blast
qed

text \<open>
  C1 as stated fails when an inactive row shares the signature but an active one was
  seen later: the query takes the row \<open>b\<close>, seen last and active, and answers
  false, although \<open>c\<close> shares the signature and is inactive.
\<close>

theorem relist_detection_counterexample:
  "\<not> detect_relist (store_of [row_with ''a'' (Some 1) ''s'' True 0 0,
                              row_with ''b'' (Some 1) ''s'' True 0 200000000,
                              row_with ''c'' (Some 1) ''s'' False 0 100000000] []) ''a'' 691200000000
   \<and> spec_detect_relist (store_of [row_with ''a'' (Some 1) ''s'' True 0 0,
                              row_with ''b'' (Some 1) ''s'' True 0 200000000,
                              row_with ''c'' (Some 1) ''s'' False 0 100000000] []) ''a'' 691200000000"
proof -
  let ?st = "store_of [row_with ''a'' (Some 1) ''s'' True 0 0,
                       row_with ''b'' (Some 1) ''s'' True 0 200000000,
                       row_with ''c'' (Some 1) ''s'' False 0 100000000] []"
  have s: "select_row ?st ''a'' = Some (row_with ''a'' (Some 1) ''s'' True 0 0)"
    by (simp add: select_row_def store_of_def row_with_def)
  have a: "\<not> detect_relist ?st ''a'' 691200000000"
    by (simp add: detect_relist_def s) (simp add: store_of_def row_with_def)
  have b: "spec_detect_relist ?st ''a'' 691200000000"
    by (simp add: spec_detect_relist_def same_signature_others_def s)
      (simp add: store_of_def row_with_def)
  from a b show ?thesis by blast
qed


section \<open>Properties of the pipeline\<close>

lemma filter_map_other:
  assumes "\<And>r. k (f r) = k r" "lid \<noteq> lid'"
  shows "filter (\<lambda>r. k r = lid) (map (\<lambda>r. if k r = lid' then f r else r) rows)
         = filter (\<lambda>r. k r = lid) rows"
  using assms by (induction rows) auto

lemma filter_map_same:
  assumes "\<And>r. k (f r) = k r"
  shows "filter (\<lambda>r. k r = lid) (map (\<lambda>r. if k r = lid then f r else r) rows)
         = map f (filter (\<lambda>r. k r = lid) rows)"
  using assms by (induction rows) auto

lemma rows_of_update_other:
  assumes "\<And>r. r_listing_id (f r) = r_listing_id r" "lid \<noteq> lid'"
  shows "rows_of (update_rows lid' f st) lid = rows_of st lid"
  using assms by (simp add: rows_of_def update_rows_def filter_map_other)

lemma rows_of_update_same:
  assumes "\<And>r. r_listing_id (f r) = r_listing_id r"
  shows "rows_of (update_rows lid f st) lid = map f (rows_of st lid)"
  using assms by (simp add: rows_of_def update_rows_def filter_map_same)

lemma rows_of_cong:
  "listings_current st' = listings_current st \<Longrightarrow> rows_of st' lid = rows_of st lid"
  by (simp add: rows_of_def)

lemma events_of_cong:
  "listing_events st' = listing_events st \<Longrightarrow> events_of st' lid = events_of st lid"
  by (simp add: events_of_def)

lemma missing_events_of:
  "missing_events st lid = filter (\<lambda>e. event_type e = ''missing'') (events_of st lid)"
  by (simp add: missing_events_def events_of_def conj_commute)

lemma upsert_rows_other:
  assumes "lid \<noteq> listing_id l"
  shows "rows_of (fst (upsert_listing_current lib st l t)) lid = rows_of st lid"
proof (cases "select_row st (listing_id l)")
  case None
  then show ?thesis using assms
    by (simp add: upsert_listing_current_def Let_def rows_of_def)
next
  case (Some r)
  then show ?thesis using assms
    by (simp add: upsert_listing_current_def Let_def rows_of_update_other)
qed

lemma upsert_events_of:
  "events_of (fst (upsert_listing_current lib st l t)) lid = events_of st lid"
  by (simp add: upsert_listing_current_def Let_def events_of_def update_rows_def
      split: option.split)

lemma record_event_rows_of:
  "rows_of (record_event st lid' ty old new t) lid = rows_of st lid"
  by (simp add: rows_of_def record_event_def)

lemma record_event_events_other:
  "lid \<noteq> lid' \<Longrightarrow> events_of (record_event st lid' ty old new t) lid = events_of st lid"
  by (simp add: events_of_def record_event_def)

lemma mark_seen_rows_other:
  "lid \<noteq> lid' \<Longrightarrow> rows_of (mark_seen st lid' t) lid = rows_of st lid"
  by (simp add: rows_of_def mark_seen_def Let_def update_rows_def filter_map_other)

lemma mark_seen_events_of:
  "events_of (mark_seen st lid' t) lid = events_of st lid"
  by (simp add: events_of_def mark_seen_def Let_def update_rows_def)

lemma mark_missing_rows_other:
  "lid \<noteq> lid' \<Longrightarrow> rows_of (mark_missing st lid' t) lid = rows_of st lid"
  by (simp add: rows_of_def mark_missing_def Let_def update_rows_def record_event_def
      filter_map_other)

lemma mark_missing_events_other:
  "lid \<noteq> lid' \<Longrightarrow> events_of (mark_missing st lid' t) lid = events_of st lid"
  by (simp add: events_of_def mark_missing_def Let_def update_rows_def record_event_def)

lemma mark_missing_rows_same:
  "rows_of (mark_missing st lid t) lid
     = map (\<lambda>r. r\<lparr>r_is_active := False, r_last_seen := iso t\<rparr>) (rows_of st lid)"
  by (simp add: rows_of_def mark_missing_def Let_def update_rows_def record_event_def
      filter_map_same)

lemma mark_missing_events_same:
  "events_of (mark_missing st lid t) lid = events_of st lid @ [missing_event lid t]"
  by (simp add: events_of_def mark_missing_def Let_def update_rows_def record_event_def
      missing_event_def)

lemma enrich_one_other:
  assumes "lid \<noteq> listing_id raw"
  shows "rows_of (fst (enrich_one lib s clock now raw (st, out, seen))) lid = rows_of st lid"
    and "events_of (fst (enrich_one lib s clock now raw (st, out, seen))) lid = events_of st lid"
  using assms
  by (simp_all add: enrich_one_def Let_def split_beta mark_seen_rows_other mark_seen_events_of
      record_event_rows_of record_event_events_other upsert_rows_other upsert_events_of)

lemma enrich_one_seen:
  "snd (snd (enrich_one lib s clock now raw (st, out, seen))) = insert (listing_id raw) seen"
  by (simp add: enrich_one_def Let_def split_beta)

lemma fold_enrich_other:
  assumes "lid \<notin> listing_id ` set batch"
  shows "rows_of (fst (fold (enrich_one lib s clock now) batch acc)) lid = rows_of (fst acc) lid
       \<and> events_of (fst (fold (enrich_one lib s clock now) batch acc)) lid = events_of (fst acc) lid"
  using assms
proof (induction batch arbitrary: acc)
  case Nil
  show ?case by simp
next
  case (Cons raw batch)
  obtain st out seen where acc: "acc = (st, out, seen)" by (cases acc) auto
  from Cons.prems have ne: "lid \<noteq> listing_id raw" and rest: "lid \<notin> listing_id ` set batch"
    by auto
  show ?case
    using Cons.IH [OF rest, of "enrich_one lib s clock now raw acc"] enrich_one_other [OF ne]
    by (simp add: acc)
qed

lemma fold_enrich_seen:
  "snd (snd (fold (enrich_one lib s clock now) batch acc)) = snd (snd acc) \<union> listing_id ` set batch"
proof (induction batch arbitrary: acc)
  case Nil
  show ?case by simp
next
  case (Cons raw batch)
  obtain st out seen where acc: "acc = (st, out, seen)" by (cases acc) auto
  show ?case
    using Cons.IH [of "enrich_one lib s clock now raw acc"]
    by (simp add: acc enrich_one_seen)
qed

lemma mark_all_missing_Cons:
  "mark_all_missing (m # mids) now st = mark_all_missing mids now (mark_missing st m now)"
  by (simp add: mark_all_missing_def)

lemma mark_all_missing_other:
  assumes "lid \<notin> set mids"
  shows "rows_of (mark_all_missing mids now st) lid = rows_of st lid
       \<and> events_of (mark_all_missing mids now st) lid = events_of st lid"
  using assms
  by (induction mids arbitrary: st)
    (auto simp: mark_all_missing_def mark_missing_rows_other mark_missing_events_other)

lemma mark_all_missing_member:
  assumes "distinct mids" "lid \<in> set mids"
  shows "rows_of (mark_all_missing mids now st) lid
           = map (\<lambda>r. r\<lparr>r_is_active := False, r_last_seen := iso now\<rparr>) (rows_of st lid)
       \<and> events_of (mark_all_missing mids now st) lid = events_of st lid @ [missing_event lid now]"
  using assms
proof (induction mids arbitrary: st)
  case Nil
  then show ?case by simp
next
  case (Cons m mids)
  show ?case
  proof (cases "m = lid")
    case True
    with Cons.prems have "lid \<notin> set mids" by simp
    from mark_all_missing_other [OF this, of now "mark_missing st m now"] True
    show ?thesis
      by (simp add: mark_all_missing_Cons mark_missing_rows_same mark_missing_events_same)
  next
    case False
    with Cons.prems have "distinct mids" "lid \<in> set mids" by simp_all
    from Cons.IH [OF this, of "mark_missing st m now"] False
    show ?thesis
      by (simp add: mark_all_missing_Cons mark_missing_rows_other mark_missing_events_other)
  qed
qed

lemma fst_enrich_listings:
  "fst (enrich_listings lib s clock now batch st) =
     mark_all_missing
       (filter (\<lambda>i. i \<notin> listing_id ` set batch) (remdups (previously_active st))) now
       (fst (fold (enrich_one lib s clock now) batch (st, [], {})))"
  by (simp add: enrich_listings_def Let_def split_beta fold_enrich_seen)

lemma previously_active_iff:
  "lid \<in> set (previously_active st) \<longleftrightarrow> list_ex r_is_active (rows_of st lid)"
  by (auto simp: previously_active_def rows_of_def list_ex_iff)


lemma run_absent_active:
  assumes "lid \<notin> listing_id ` set batch" "lid \<in> set (previously_active st)"
  shows "rows_of (fst (enrich_listings lib s clock now batch st)) lid
           = map (\<lambda>r. r\<lparr>r_is_active := False, r_last_seen := iso now\<rparr>) (rows_of st lid)
       \<and> events_of (fst (enrich_listings lib s clock now batch st)) lid
           = events_of st lid @ [missing_event lid now]"
proof -
  let ?mids = "filter (\<lambda>i. i \<notin> listing_id ` set batch) (remdups (previously_active st))"
  let ?st = "fst (fold (enrich_one lib s clock now) batch (st, [], {}))"
  have d: "distinct ?mids" by simp
  have m: "lid \<in> set ?mids" using assms by simp
  from fold_enrich_other [OF assms(1), of lib s clock now "(st, [], {})"]
  have f: "rows_of ?st lid = rows_of st lid" "events_of ?st lid = events_of st lid"
    by simp_all
  from mark_all_missing_member [OF d m, of now ?st] f
  show ?thesis by (simp add: fst_enrich_listings)
qed

lemma run_absent_inactive:
  assumes "lid \<notin> listing_id ` set batch" "lid \<notin> set (previously_active st)"
  shows "rows_of (fst (enrich_listings lib s clock now batch st)) lid = rows_of st lid
       \<and> events_of (fst (enrich_listings lib s clock now batch st)) lid = events_of st lid"
proof -
  let ?mids = "filter (\<lambda>i. i \<notin> listing_id ` set batch) (remdups (previously_active st))"
  let ?st = "fst (fold (enrich_one lib s clock now) batch (st, [], {}))"
  have m: "lid \<notin> set ?mids" using assms by simp
  from fold_enrich_other [OF assms(1), of lib s clock now "(st, [], {})"]
  have f: "rows_of ?st lid = rows_of st lid" "events_of ?st lid = events_of st lid"
    by simp_all
  from mark_all_missing_other [OF m, of now ?st] f
  show ?thesis by (simp add: fst_enrich_listings)
qed

lemma runs_absent_inactive:
  assumes "list_all (\<lambda>r. lid \<notin> listing_id ` set (batch_of r)) later"
    "lid \<notin> set (previously_active st)"
  shows "rows_of (runs lib s later st) lid = rows_of st lid
       \<and> events_of (runs lib s later st) lid = events_of st lid"
  using assms
proof (induction later arbitrary: st)
  case Nil
  show ?case by (simp add: runs_def)
next
  case (Cons r later)
  obtain clock now batch where r: "r = (clock, now, batch)" by (cases r) auto
  from Cons.prems have a: "lid \<notin> listing_id ` set batch"
    and rest: "list_all (\<lambda>r. lid \<notin> listing_id ` set (batch_of r)) later"
    by (simp_all add: r batch_of_def)
  from run_absent_inactive [OF a Cons.prems(2), of lib s clock now]
  have same: "rows_of (run lib s r st) lid = rows_of st lid"
    "events_of (run lib s r st) lid = events_of st lid"
    by (simp_all add: run_def r)
  from Cons.prems(2) same(1) have "lid \<notin> set (previously_active (run lib s r st))"
    by (simp add: previously_active_iff)
  from Cons.IH [OF rest this] same show ?case
    by (simp add: runs_def)
qed

text \<open>
  C2. If an id is active at the start of a run and absent from the batch of the run,
  the run appends exactly one \<open>missing\<close> event for it, at the timestamp of the run,
  and leaves its row inactive. Through any further runs whose batches do not contain the
  id, no \<open>missing\<close> event is appended for it and its row stays inactive.
\<close>

theorem missing_event_once:
  assumes "lid \<in> set (previously_active st)"
    and "lid \<notin> listing_id ` set batch"
    and "list_all (\<lambda>r. lid \<notin> listing_id ` set (batch_of r)) later"
  shows "missing_events (run lib s (clock, now, batch) st) lid
           = missing_events st lid @ [missing_event lid now]
       \<and> rows_of (run lib s (clock, now, batch) st) lid \<noteq> []
       \<and> list_all (\<lambda>r. \<not> r_is_active r) (rows_of (run lib s (clock, now, batch) st) lid)
       \<and> missing_events (runs lib s later (run lib s (clock, now, batch) st)) lid
           = missing_events (run lib s (clock, now, batch) st) lid
       \<and> list_all (\<lambda>r. \<not> r_is_active r)
           (rows_of (runs lib s later (run lib s (clock, now, batch) st)) lid)"
proof -
  let ?st = "run lib s (clock, now, batch) st"
  from run_absent_active [OF assms(2) assms(1), of lib s clock now]
  have rows: "rows_of ?st lid
                = map (\<lambda>r. r\<lparr>r_is_active := False, r_last_seen := iso now\<rparr>) (rows_of st lid)"
    and evs: "events_of ?st lid = events_of st lid @ [missing_event lid now]"
    by (simp_all add: run_def)
  have m: "missing_events ?st lid = missing_events st lid @ [missing_event lid now]"
    by (simp add: missing_events_of evs) (simp add: missing_event_def)
  from assms(1) have "rows_of st lid \<noteq> []"
    by (auto simp: previously_active_iff list_ex_iff)
  then have ne: "rows_of ?st lid \<noteq> []" by (simp add: rows)
  have ina: "list_all (\<lambda>r. \<not> r_is_active r) (rows_of ?st lid)"
    by (simp add: rows list_all_iff)
  then have "lid \<notin> set (previously_active ?st)"
    by (simp add: previously_active_iff list_ex_iff list_all_iff)
  from runs_absent_inactive [OF assms(3) this, of lib s]
  have later: "rows_of (runs lib s later ?st) lid = rows_of ?st lid"
    "events_of (runs lib s later ?st) lid = events_of ?st lid"
    by simp_all
  have m2: "missing_events (runs lib s later ?st) lid = missing_events ?st lid"
    by (simp add: missing_events_of later)
  have ina2: "list_all (\<lambda>r. \<not> r_is_active r) (rows_of (runs lib s later ?st) lid)"
    using ina by (simp add: later)
  from m ne ina m2 ina2 show ?thesis by blast
qed

theorem missing_event_once_witness:
  "''a'' \<in> set (previously_active (store_of [row_with ''a'' (Some 1) ''s'' True 0 0] []))
   \<and> ''a'' \<notin> listing_id ` set [listing_with ''b'' (Some 5) None]
   \<and> list_all (\<lambda>r. ''a'' \<notin> listing_id ` set (batch_of r))
        [(172800000000, 172800000000, [listing_with ''b'' (Some 5) None]),
         (259200000000, 259200000000, [])]
   \<and> missing_events (store_of [row_with ''a'' (Some 1) ''s'' True 0 0] []) ''a'' = []
   \<and> missing_events (run plain_lib \<lparr>signals = None\<rparr>
          (86400000000, 86400000000, [listing_with ''b'' (Some 5) None])
          (store_of [row_with ''a'' (Some 1) ''s'' True 0 0] [])) ''a''
       = [] @ [missing_event ''a'' 86400000000]
   \<and> missing_events (runs plain_lib \<lparr>signals = None\<rparr>
          [(172800000000, 172800000000, [listing_with ''b'' (Some 5) None]),
           (259200000000, 259200000000, [])]
          (run plain_lib \<lparr>signals = None\<rparr>
             (86400000000, 86400000000, [listing_with ''b'' (Some 5) None])
             (store_of [row_with ''a'' (Some 1) ''s'' True 0 0] []))) ''a''
       = missing_events (run plain_lib \<lparr>signals = None\<rparr>
          (86400000000, 86400000000, [listing_with ''b'' (Some 5) None])
          (store_of [row_with ''a'' (Some 1) ''s'' True 0 0] [])) ''a''"
proof -
  let ?st = "store_of [row_with ''a'' (Some 1) ''s'' True 0 0] []"
  let ?later = "[(172800000000 :: int, 172800000000 :: int, [listing_with ''b'' (Some 5) None]),
         (259200000000, 259200000000, [])]"
  have a: "''a'' \<in> set (previously_active ?st)"
    by (simp add: previously_active_def store_of_def row_with_def)
  have b: "''a'' \<notin> listing_id ` set [listing_with ''b'' (Some 5) None]"
    by (simp add: listing_with_def)
  have c: "list_all (\<lambda>r. ''a'' \<notin> listing_id ` set (batch_of r)) ?later"
    by (simp add: batch_of_def listing_with_def)
  have e: "missing_events ?st ''a'' = []"
    by (simp add: missing_events_def store_of_def)
  note t = missing_event_once [OF a b c, of plain_lib "\<lparr>signals = None\<rparr>" 86400000000 86400000000]
  from t e have m: "missing_events (run plain_lib \<lparr>signals = None\<rparr>
          (86400000000, 86400000000, [listing_with ''b'' (Some 5) None]) ?st) ''a''
       = [] @ [missing_event ''a'' 86400000000]"
    by simp
  from t have n: "missing_events (runs plain_lib \<lparr>signals = None\<rparr> ?later
          (run plain_lib \<lparr>signals = None\<rparr>
             (86400000000, 86400000000, [listing_with ''b'' (Some 5) None]) ?st)) ''a''
       = missing_events (run plain_lib \<lparr>signals = None\<rparr>
          (86400000000, 86400000000, [listing_with ''b'' (Some 5) None]) ?st) ''a''"
    by blast
  from a b c e m n show ?thesis by blast
qed


end
